theory Spec2Isabelle
  imports Main "HOL-Library.Char_ord" "HOL-Library.List_Lexorder" "HOL-Library.Product_Lexorder"
begin

section \<open>Common data\<close>

text \<open>
  The repository holds two back ends side by side. The JavaScript one
  (\<^verbatim>\<open>lib/auth.js\<close>, \<^verbatim>\<open>routes/auth.js\<close>, \<^verbatim>\<open>middleware/auth.js\<close>, Zod schemas) keeps a
  \<^verbatim>\<open>revoked\<close> flag on refresh tokens and gates routes by role. The TypeScript one
  (\<^verbatim>\<open>routes/auth.ts\<close>, \<^verbatim>\<open>routes/issues.ts\<close>, \<^verbatim>\<open>middleware/auth.ts\<close>, Joi schemas) deletes
  refresh tokens on logout and serves the issue routes to every authenticated user.
  Both are embedded here, each from its own source.

  A \<^verbatim>\<open>Date\<close> is the number of milliseconds since the epoch, which is what the
  comparison \<^verbatim>\<open>a < b\<close> of two dates compares. A database table is the list of its rows.
  A string is the list of its UTF-16 code units, and the characters of this theory are
  the code units below 256; the functions of the JavaScript library whose result
  depends on more than that (\<^verbatim>\<open>toLowerCase\<close>, \<^verbatim>\<open>jwt.verify\<close>, \<^verbatim>\<open>JSON.parse\<close>, Joi's formats)
  are parameters of the functions that call them.
\<close>

type_synonym time = int

datatype json =
    JNull
  | JBool bool
  | JNum int
  | JStr string
  | JArr "json list"
  | JObj "(string \<times> json) list"

text \<open>
  What a handler answers with when it does not succeed: the HTTP status, the \<^verbatim>\<open>error\<close>
  field of the JSON envelope and the accompanying text (\<^verbatim>\<open>message\<close> in the JavaScript
  back end, \<^verbatim>\<open>details\<close> in the TypeScript one).
\<close>

datatype http_error = HttpError (statusCode: nat) (error: string) (info: string)

text \<open>
  The Prisma error codes the error handlers translate. P2002 (a unique constraint)
  carries \<^verbatim>\<open>meta.target\<close>, the columns of the constraint.
\<close>

datatype prisma_error = P2002 "string list" | P2003 | P2025

record user =
  user_id :: string
  email :: string
  name :: string
  role :: string

text \<open>
  A row of \<^verbatim>\<open>refresh_tokens\<close>. The TypeScript back end writes and reads \<^verbatim>\<open>id\<close>,
  \<^verbatim>\<open>token\<close>, \<^verbatim>\<open>userId\<close>, \<^verbatim>\<open>expiresAt\<close> and \<^verbatim>\<open>createdAt\<close>; the JavaScript back end's
  table (\<^verbatim>\<open>CREATE TABLE "refresh_tokens"\<close>) has the \<^verbatim>\<open>revoked\<close> column besides.
\<close>

record stored_token =
  rt_id :: string
  userId :: string
  token :: string
  expiresAt :: time
  rt_createdAt :: time

record refresh_token = stored_token +
  revoked :: bool

section \<open>JavaScript back end: the tables and the session store of \<^verbatim>\<open>lib/auth.js\<close>\<close>

text \<open>
  A row of the JavaScript back end's \<^verbatim>\<open>issues\<close> table (\<^verbatim>\<open>CREATE TABLE "issues"\<close>). Its
  enumerations are kept as the strings the code compares.
\<close>

record js_issue =
  js_id :: string
  orderId :: string
  js_type :: string
  js_severity :: string
  js_status :: string
  js_description :: string
  customerId :: string
  js_createdAt :: time
  js_updatedAt :: time

record js_db =
  js_users :: "user list"
  js_refreshTokens :: "refresh_token list"
  js_issues :: "js_issue list"

text \<open>
  \<^verbatim>\<open>errorHandler\<close> of \<^verbatim>\<open>lib/errors.js\<close> answers an operational error with its
  \<^verbatim>\<open>statusCode\<close> and \<^verbatim>\<open>errorType\<close>, a Prisma error by its code, and anything else with 500.
  \<open>ValidationError\<close> is the 400 that \<^verbatim>\<open>validateBody\<close>, \<^verbatim>\<open>validateQuery\<close> and \<^verbatim>\<open>validateParams\<close>
  send for a \<^verbatim>\<open>ZodError\<close>; its \<^verbatim>\<open>details\<close>, the list of Zod's messages, is left out.
\<close>

definition UnauthorizedError :: "string \<Rightarrow> http_error" where
  "UnauthorizedError msg = HttpError 401 ''Unauthorized'' msg"

definition ForbiddenError :: "string \<Rightarrow> http_error" where
  "ForbiddenError msg = HttpError 403 ''Forbidden'' msg"

definition NotFoundError :: "string \<Rightarrow> http_error" where
  "NotFoundError msg = HttpError 404 ''NotFound'' msg"

definition InternalError :: http_error where
  "InternalError = HttpError 500 ''InternalError'' ''Something went wrong''"

definition ValidationError :: http_error where
  "ValidationError = HttpError 400 ''ValidationError'' []"


text \<open>
  \<^verbatim>\<open>validateRefreshToken(token)\<close>: \<^verbatim>\<open>findUnique\<close> by token with the owning user joined in,
  then \<^verbatim>\<open>!refreshToken || refreshToken.revoked || refreshToken.expiresAt < new Date()\<close>
  gives \<^verbatim>\<open>null\<close>.
\<close>

definition validateRefreshToken ::
  "js_db \<Rightarrow> time \<Rightarrow> string \<Rightarrow> (refresh_token \<times> user option) option" where
  "validateRefreshToken db now tok =
     (case find (\<lambda>r. token r = tok) (js_refreshTokens db) of
        None \<Rightarrow> None
      | Some r \<Rightarrow>
          if revoked r \<or> expiresAt r < now then None
          else Some (r, find (\<lambda>u. user_id u = userId r) (js_users db)))"

text \<open>\<^verbatim>\<open>revokeRefreshToken(token)\<close>: \<^verbatim>\<open>updateMany\<close> where the token matches.\<close>

definition revokeRefreshToken :: "js_db \<Rightarrow> string \<Rightarrow> js_db" where
  "revokeRefreshToken db tok =
     db\<lparr>js_refreshTokens :=
          map (\<lambda>r. if token r = tok then r\<lparr>revoked := True\<rparr> else r) (js_refreshTokens db)\<rparr>"






text \<open>
  \<^verbatim>\<open>refreshTokenSchema\<close> with \<^verbatim>\<open>validateBody\<close>: the body's \<^verbatim>\<open>refreshToken\<close> is a string of
  at least one character, otherwise the answer is 400.
\<close>

definition refreshTokenSchema :: "(string \<rightharpoonup> json) \<Rightarrow> http_error + string" where
  "refreshTokenSchema body =
     (case body ''refreshToken'' of
        Some (JStr s) \<Rightarrow> if 1 \<le> length s then Inr s else Inl ValidationError
      | _ \<Rightarrow> Inl ValidationError)"

text \<open>
  \<^verbatim>\<open>POST /auth/refresh\<close> of \<^verbatim>\<open>routes/auth.js\<close>. \<open>sign userId role\<close> stands for
  \<^verbatim>\<open>generateAccessToken({ userId, role })\<close>, the signed token string. The handler reads
  \<^verbatim>\<open>tokenData.user.id\<close>; were the joined user missing, that read would throw a
  \<^verbatim>\<open>TypeError\<close>, which the error handler answers with 500. The answer carries the access
  token (its constant \<^verbatim>\<open>expiresIn: 900\<close> is left out); the database is returned as the
  handler leaves it.
\<close>

definition refresh_js ::
  "(string \<Rightarrow> string \<Rightarrow> string) \<Rightarrow> js_db \<Rightarrow> time \<Rightarrow> (string \<rightharpoonup> json) \<Rightarrow>
     (http_error + string) \<times> js_db" where
  "refresh_js sign db now body =
     (case refreshTokenSchema body of
        Inl e \<Rightarrow> (Inl e, db)
      | Inr tok \<Rightarrow>
          (case validateRefreshToken db now tok of
             None \<Rightarrow> (Inl (UnauthorizedError ''Invalid or expired refresh token''), db)
           | Some (r, None) \<Rightarrow> (Inl InternalError, db)
           | Some (r, Some u) \<Rightarrow> (Inr (sign (user_id u) (role u)), db)))"


section \<open>JavaScript back end: the role gate of \<^verbatim>\<open>middleware/auth.js\<close>\<close>

text \<open>
  \<^verbatim>\<open>requireRole(...roles)\<close> runs after \<^verbatim>\<open>authenticate\<close>: \<open>req_user\<close> is what
  \<^verbatim>\<open>authenticate\<close> left in \<^verbatim>\<open>req.user\<close>. \<open>Inr ()\<close> is the call of \<^verbatim>\<open>next()\<close>.
\<close>

definition requireRole :: "string list \<Rightarrow> user option \<Rightarrow> http_error + unit" where
  "requireRole roles req_user =
     (case req_user of
        None \<Rightarrow> Inl (UnauthorizedError ''Authentication required'')
      | Some u \<Rightarrow>
          if role u \<notin> set roles then Inl (ForbiddenError ''Insufficient permissions'')
          else Inr ())"

definition requireCustomer :: "user option \<Rightarrow> http_error + unit" where
  "requireCustomer = requireRole [''CUSTOMER'']"

definition requireSupport :: "user option \<Rightarrow> http_error + unit" where
  "requireSupport = requireRole [''SUPPORT'']"

section \<open>TypeScript back end: errors and middleware\<close>

text \<open>
  \<^verbatim>\<open>new ApiError(message, statusCode, details)\<close>, which \<^verbatim>\<open>errorHandler\<close> of
  \<^verbatim>\<open>middleware/errorHandler.ts\<close> sends as \<^verbatim>\<open>res.status(statusCode).json({error: message, details})\<close>.
  The middleware that answers by itself (\<^verbatim>\<open>authenticate\<close>, \<^verbatim>\<open>authorize\<close>, \<^verbatim>\<open>validate\<close>) sends
  the same envelope.
\<close>

definition ApiError :: "string \<Rightarrow> nat \<Rightarrow> string \<Rightarrow> http_error" where
  "ApiError msg code details = HttpError code msg details"

text \<open>\<^verbatim>\<open>handlePrismaError\<close>, for the codes the modelled tables can raise.\<close>

fun handlePrismaError :: "prisma_error \<Rightarrow> http_error" where
  "handlePrismaError (P2002 target) =
     ApiError ''Resource conflict'' 409
       (''A record with this '' @
        (case target of [] \<Rightarrow> ''field'' | field # _ \<Rightarrow> if field = [] then ''field'' else field) @
        '' already exists'')"
| "handlePrismaError P2025 = ApiError ''Resource not found'' 404 []"
| "handlePrismaError P2003 = ApiError ''Invalid reference'' 400 ''Referenced resource does not exist''"

text \<open>
  The answer of \<^verbatim>\<open>validate(schema, target)\<close> when Joi reports an error; its \<^verbatim>\<open>details\<close>, the
  list of Joi's messages, is left out.
\<close>

definition validation_failed :: http_error where
  "validation_failed = HttpError 400 ''Validation failed'' []"

text \<open>\<^verbatim>\<open>extractBearerToken\<close> of \<^verbatim>\<open>utils/auth.ts\<close>.\<close>

definition extractBearerToken :: "string option \<Rightarrow> string option" where
  "extractBearerToken authHeader =
     (case authHeader of
        None \<Rightarrow> None
      | Some h \<Rightarrow> if h = [] \<or> take 7 h \<noteq> ''Bearer '' then None else Some (drop 7 h))"

text \<open>
  \<^verbatim>\<open>authenticate\<close> of \<^verbatim>\<open>middleware/auth.ts\<close>. \<open>verifyAccessToken\<close> stands for the function of
  that name (\<^verbatim>\<open>jwt.verify\<close> with the server's secret at the time of the call): \<open>Inr\<close> the
  \<^verbatim>\<open>userId\<close> of the payload, \<open>Inl\<close> the message of the error it throws. The result is the
  401 answer, or the user attached to the request when \<^verbatim>\<open>next()\<close> is called.
\<close>

definition authenticate ::
  "(string \<Rightarrow> string + string) \<Rightarrow> user list \<Rightarrow> string option \<Rightarrow> http_error + user" where
  "authenticate verifyAccessToken users authHeader =
     (case extractBearerToken authHeader of
        None \<Rightarrow> Inl (HttpError 401 ''Authentication required'' ''No access token provided'')
      | Some t \<Rightarrow>
          if t = [] then Inl (HttpError 401 ''Authentication required'' ''No access token provided'')
          else
            (case verifyAccessToken t of
               Inl msg \<Rightarrow> Inl (HttpError 401 ''Authentication failed'' msg)
             | Inr uid \<Rightarrow>
                 (case find (\<lambda>u. user_id u = uid) users of
                    None \<Rightarrow> Inl (HttpError 401 ''Authentication failed'' ''User not found'')
                  | Some u \<Rightarrow> Inr u)))"

text \<open>\<^verbatim>\<open>roles.join(', ')\<close>.\<close>

fun join :: "string \<Rightarrow> string list \<Rightarrow> string" where
  "join sep [] = []"
| "join sep [x] = x"
| "join sep (x # y # ys) = x @ sep @ join sep (y # ys)"

text \<open>\<^verbatim>\<open>authorize(roles)\<close> of \<^verbatim>\<open>middleware/auth.ts\<close>; no route of the repository uses it.\<close>

definition authorize :: "string list \<Rightarrow> user option \<Rightarrow> http_error + unit" where
  "authorize roles req_user =
     (case req_user of
        None \<Rightarrow> Inl (HttpError 401 ''Authentication required'' ''User not authenticated'')
      | Some u \<Rightarrow>
          if role u \<notin> set roles
          then Inl (HttpError 403 ''Insufficient permissions''
                      (''Required roles: '' @ join '', '' roles))
          else Inr ())"

section \<open>TypeScript back end: the tables\<close>

text \<open>
  The enumerations of the Prisma schema, as the API documentation lists them. The
  validation schemas accept exactly their names.
\<close>

datatype IssueType =
    DELIVERY_DELAY | PACKAGE_DAMAGED | PACKAGE_LOST | WRONG_ADDRESS | DELIVERY_ATTEMPTED
  | CUSTOMER_UNAVAILABLE | WEATHER_DELAY | VEHICLE_BREAKDOWN | OTHER

datatype Severity = LOW | MEDIUM | HIGH | CRITICAL

datatype Status = OPEN | TRIAGED | IN_PROGRESS | ESCALATED | RESOLVED | CLOSED

definition parse_IssueType :: "string \<Rightarrow> IssueType option" where
  "parse_IssueType s =
     map_of [(''DELIVERY_DELAY'', DELIVERY_DELAY), (''PACKAGE_DAMAGED'', PACKAGE_DAMAGED),
             (''PACKAGE_LOST'', PACKAGE_LOST), (''WRONG_ADDRESS'', WRONG_ADDRESS),
             (''DELIVERY_ATTEMPTED'', DELIVERY_ATTEMPTED),
             (''CUSTOMER_UNAVAILABLE'', CUSTOMER_UNAVAILABLE), (''WEATHER_DELAY'', WEATHER_DELAY),
             (''VEHICLE_BREAKDOWN'', VEHICLE_BREAKDOWN), (''OTHER'', OTHER)] s"

definition parse_Severity :: "string \<Rightarrow> Severity option" where
  "parse_Severity s =
     map_of [(''LOW'', LOW), (''MEDIUM'', MEDIUM), (''HIGH'', HIGH), (''CRITICAL'', CRITICAL)] s"

definition parse_Status :: "string \<Rightarrow> Status option" where
  "parse_Status s =
     map_of [(''OPEN'', OPEN), (''TRIAGED'', TRIAGED), (''IN_PROGRESS'', IN_PROGRESS),
             (''ESCALATED'', ESCALATED), (''RESOLVED'', RESOLVED), (''CLOSED'', CLOSED)] s"

text \<open>
  A row of the issue table (\<^verbatim>\<open>id\<close> and \<^verbatim>\<open>type\<close> are \<open>issue_id\<close> and \<open>issue_type\<close> here).
  A handler's answer copies the row field by field, dates in ISO 8601 and
  \<^verbatim>\<open>assignedToId\<close>, \<^verbatim>\<open>createdById\<close> under the names \<^verbatim>\<open>assignedTo\<close>, \<^verbatim>\<open>createdBy\<close>; the row
  stands for that answer.
\<close>

record issue =
  issue_id :: string
  trackingNumber :: string
  issue_type :: IssueType
  severity :: Severity
  status :: Status
  title :: string
  description :: string
  customerEmail :: string
  customerPhone :: "string option"
  assignedToId :: "string option"
  createdById :: string
  createdAt :: time
  updatedAt :: time
  resolvedAt :: "time option"

record ts_db =
  ts_users :: "user list"
  ts_refreshTokens :: "stored_token list"
  ts_issues :: "issue list"

section \<open>TypeScript back end: \<^verbatim>\<open>POST /auth/refresh\<close> of \<^verbatim>\<open>routes/auth.ts\<close>\<close>

text \<open>
  \<^verbatim>\<open>schemas.refreshToken\<close> through \<^verbatim>\<open>validate\<close>: the body's \<^verbatim>\<open>refreshToken\<close> is a string, and
  Joi does not take the empty string for one.
\<close>

definition validateRefreshTokenBody :: "(string \<rightharpoonup> json) \<Rightarrow> http_error + string" where
  "validateRefreshTokenBody body =
     (case body ''refreshToken'' of
        Some (JStr s) \<Rightarrow> if s = [] then Inl validation_failed else Inr s
      | _ \<Rightarrow> Inl validation_failed)"

text \<open>
  The handler. \<open>verifyRefreshToken t\<close> tells whether the function of that name returns
  (\<^verbatim>\<open>jwt.verify\<close> with the refresh secret accepts the token at the time of the call) rather
  than throws. \<open>sign userId email\<close> stands for \<^verbatim>\<open>generateAccessToken({ userId, email })\<close>.
  \<^verbatim>\<open>prisma.refreshToken.delete({ where: { id } })\<close> removes the row with that id. The answer
  on success carries the access token (its \<^verbatim>\<open>expiresIn\<close>, a constant of the configuration,
  is left out). The handler reads \<^verbatim>\<open>storedToken.user.id\<close>; were the joined user missing,
  the read would throw a \<^verbatim>\<open>TypeError\<close>, answered with 500.
\<close>

definition refresh_ts ::
  "(string \<Rightarrow> bool) \<Rightarrow> (string \<Rightarrow> string \<Rightarrow> string) \<Rightarrow> ts_db \<Rightarrow> time \<Rightarrow> (string \<rightharpoonup> json) \<Rightarrow>
     (http_error + string) \<times> ts_db" where
  "refresh_ts verifyRefreshToken sign db now body =
     (case validateRefreshTokenBody body of
        Inl e \<Rightarrow> (Inl e, db)
      | Inr tok \<Rightarrow>
          if \<not> verifyRefreshToken tok
          then (Inl (ApiError ''Authentication failed'' 401 ''Invalid or expired refresh token''), db)
          else
            (case find (\<lambda>r. token r = tok) (ts_refreshTokens db) of
               None \<Rightarrow> (Inl (ApiError ''Authentication failed'' 401 ''Refresh token not found''), db)
             | Some storedToken \<Rightarrow>
                 if expiresAt storedToken < now
                 then (Inl (ApiError ''Authentication failed'' 401 ''Refresh token has expired''),
                       db\<lparr>ts_refreshTokens :=
                            filter (\<lambda>r. rt_id r \<noteq> rt_id storedToken) (ts_refreshTokens db)\<rparr>)
                 else
                   (case find (\<lambda>u. user_id u = userId storedToken) (ts_users db) of
                      None \<Rightarrow> (Inl (ApiError ''Internal server error'' 500 []), db)
                    | Some u \<Rightarrow> (Inr (sign (user_id u) (email u)), db))))"

section \<open>TypeScript back end: the issue routes of \<^verbatim>\<open>routes/issues.ts\<close>\<close>

subsection \<open>Validation (\<^verbatim>\<open>middleware/validation.ts\<close>)\<close>

text \<open>
  A request body is the object \<^verbatim>\<open>express.json()\<close> parsed: a map from its keys to JSON
  values. \<^verbatim>\<open>validate\<close> runs the schema with \<^verbatim>\<open>stripUnknown\<close> and replaces the body by the
  validated value, so a handler sees the schema's keys and no others. Joi's
  \<^verbatim>\<open>string().email()\<close> and \<^verbatim>\<open>string().uuid()\<close> are parameters (\<open>is_email\<close>, \<open>is_uuid\<close>).
  A length is the number of code units of the string.
\<close>

definition validateUuidParam :: "(string \<Rightarrow> bool) \<Rightarrow> string \<Rightarrow> http_error + string" where
  "validateUuidParam is_uuid ident = (if is_uuid ident then Inr ident else Inl validation_failed)"

text \<open>
  \<^verbatim>\<open>/^\+?[\d\s\-\(\)]+$/\<close>. \<^verbatim>\<open>\d\<close> is a digit from 0 to 9. \<^verbatim>\<open>\s\<close> is a white space or a line
  terminator of ECMAScript; among the code units below 256 these are U+0009 to U+000D,
  U+0020 and U+00A0.
\<close>

definition phone_char :: "char \<Rightarrow> bool" where
  "phone_char c \<longleftrightarrow>
     (let n = (of_char c :: nat)
      in (48 \<le> n \<and> n \<le> 57) \<or> n = 32 \<or> (9 \<le> n \<and> n \<le> 13) \<or> n = 160 \<or>
         c = CHR ''-'' \<or> c = CHR ''('' \<or> c = CHR '')'')"

definition phone_pattern :: "string \<Rightarrow> bool" where
  "phone_pattern s \<longleftrightarrow>
     (let r = (case s of c # cs \<Rightarrow> if c = CHR ''+'' then cs else s | [] \<Rightarrow> s)
      in r \<noteq> [] \<and> list_all phone_char r)"

record create_request =
  req_trackingNumber :: string
  req_type :: IssueType
  req_title :: string
  req_description :: string
  req_customerEmail :: string
  req_customerPhone :: "string option"

text \<open>A required string field with \<^verbatim>\<open>min\<close> and \<^verbatim>\<open>max\<close>.\<close>

definition string_field :: "nat \<Rightarrow> nat \<Rightarrow> json option \<Rightarrow> string option" where
  "string_field lo hi v =
     (case v of
        Some (JStr s) \<Rightarrow> if lo \<le> length s \<and> length s \<le> hi then Some s else None
      | _ \<Rightarrow> None)"

text \<open>\<^verbatim>\<open>schemas.createIssue\<close> through \<^verbatim>\<open>validate\<close>.\<close>

definition validateCreateIssue ::
  "(string \<Rightarrow> bool) \<Rightarrow> (string \<rightharpoonup> json) \<Rightarrow> http_error + create_request" where
  "validateCreateIssue is_email body =
     (case (string_field 3 50 (body ''trackingNumber''),
            (case body ''type'' of Some (JStr s) \<Rightarrow> parse_IssueType s | _ \<Rightarrow> None),
            string_field 5 200 (body ''title''),
            string_field 10 2000 (body ''description''),
            (case body ''customerEmail'' of
               Some (JStr s) \<Rightarrow> if s \<noteq> [] \<and> is_email s then Some s else None
             | _ \<Rightarrow> None),
            (case body ''customerPhone'' of
               None \<Rightarrow> Some None
             | Some (JStr s) \<Rightarrow> if phone_pattern s then Some (Some s) else None
             | Some _ \<Rightarrow> None)) of
        (Some tn, Some ty, Some ti, Some de, Some em, Some ph) \<Rightarrow>
          Inr \<lparr>req_trackingNumber = tn, req_type = ty, req_title = ti, req_description = de,
               req_customerEmail = em, req_customerPhone = ph\<rparr>
      | _ \<Rightarrow> Inl validation_failed)"

record triage_request =
  req_severity :: Severity
  req_status :: "Status option"
  req_assignedTo :: "string option"

text \<open>\<^verbatim>\<open>schemas.triageIssue\<close> through \<^verbatim>\<open>validate\<close>.\<close>

definition validateTriageIssue ::
  "(string \<Rightarrow> bool) \<Rightarrow> (string \<rightharpoonup> json) \<Rightarrow> http_error + triage_request" where
  "validateTriageIssue is_uuid body =
     (case ((case body ''severity'' of Some (JStr s) \<Rightarrow> parse_Severity s | _ \<Rightarrow> None),
            (case body ''status'' of
               None \<Rightarrow> Some None
             | Some (JStr s) \<Rightarrow> map_option Some (parse_Status s)
             | Some _ \<Rightarrow> None),
            (case body ''assignedTo'' of
               None \<Rightarrow> Some None
             | Some (JStr s) \<Rightarrow> if is_uuid s then Some (Some s) else None
             | Some _ \<Rightarrow> None)) of
        (Some sev, Some st, Some asg) \<Rightarrow>
          Inr \<lparr>req_severity = sev, req_status = st, req_assignedTo = asg\<rparr>
      | _ \<Rightarrow> Inl validation_failed)"

text \<open>
  The query of \<^verbatim>\<open>GET /issues\<close>: each parameter is absent or a string. For \<^verbatim>\<open>limit\<close> the
  string is given by what Joi's conversion to a number makes of it: an integer, a
  number that is not an integer, or not a number.
\<close>

datatype query_number = QInt int | QFraction | QNotNumber

record issue_query =
  q_status :: "string option"
  q_severity :: "string option"
  q_type :: "string option"
  q_q :: "string option"
  q_cursor :: "string option"
  q_limit :: "query_number option"

record issue_filters =
  f_status :: "Status option"
  f_severity :: "Severity option"
  f_type :: "IssueType option"
  f_q :: "string option"
  f_cursor :: "string option"
  f_limit :: int

text \<open>
  \<^verbatim>\<open>schemas.issueFilters\<close> through \<^verbatim>\<open>validate\<close>:
  \<^verbatim>\<open>limit: Joi.number().integer().min(1).max(100).default(20).optional()\<close>.
\<close>

definition validateIssueFilters :: "issue_query \<Rightarrow> http_error + issue_filters" where
  "validateIssueFilters q =
     (if (case q_status q of Some s \<Rightarrow> parse_Status s = None | None \<Rightarrow> False) \<or>
         (case q_severity q of Some s \<Rightarrow> parse_Severity s = None | None \<Rightarrow> False) \<or>
         (case q_type q of Some s \<Rightarrow> parse_IssueType s = None | None \<Rightarrow> False) \<or>
         (case q_q q of Some s \<Rightarrow> length s < 1 \<or> 100 < length s | None \<Rightarrow> False) \<or>
         (case q_cursor q of Some c \<Rightarrow> c = [] | None \<Rightarrow> False) \<or>
         (case q_limit q of
            None \<Rightarrow> False
          | Some (QInt n) \<Rightarrow> n < 1 \<or> 100 < n
          | Some _ \<Rightarrow> True)
      then Inl validation_failed
      else Inr \<lparr>f_status = Option.bind (q_status q) parse_Status,
                f_severity = Option.bind (q_severity q) parse_Severity,
                f_type = Option.bind (q_type q) parse_IssueType,
                f_q = q_q q,
                f_cursor = q_cursor q,
                f_limit = (case q_limit q of Some (QInt n) \<Rightarrow> n | _ \<Rightarrow> 20)\<rparr>)"

subsection \<open>\<^verbatim>\<open>POST /issues\<close>\<close>

text \<open>
  \<^verbatim>\<open>prisma.issue.create\<close>. The handler passes the validated fields, \<^verbatim>\<open>Severity.MEDIUM\<close>,
  \<^verbatim>\<open>Status.OPEN\<close> and the caller's id; it passes no \<^verbatim>\<open>assignedToId\<close> and no
  \<^verbatim>\<open>resolvedAt\<close>, and the columns it leaves out are null. \<open>toLowerCase\<close> stands for
  \<^verbatim>\<open>String.prototype.toLowerCase\<close>. The database supplies the id (\<open>newId\<close>) and the two
  time stamps (\<open>now\<close>); it refuses a second row with the same id (P2002) and a creator
  that is not a user (P2003).
\<close>

definition create_issue ::
  "(string \<Rightarrow> string) \<Rightarrow> ts_db \<Rightarrow> string \<Rightarrow> time \<Rightarrow> user \<Rightarrow> create_request \<Rightarrow>
     (http_error + issue) \<times> ts_db" where
  "create_issue toLowerCase db newId now req_user req =
     (let row = \<lparr>issue_id = newId, trackingNumber = req_trackingNumber req,
                 issue_type = req_type req, severity = MEDIUM, status = OPEN,
                 title = req_title req, description = req_description req,
                 customerEmail = toLowerCase (req_customerEmail req),
                 customerPhone = req_customerPhone req, assignedToId = None,
                 createdById = user_id req_user, createdAt = now, updatedAt = now,
                 resolvedAt = None\<rparr>
      in if find (\<lambda>i. issue_id i = newId) (ts_issues db) \<noteq> None
         then (Inl (handlePrismaError (P2002 [''id''])), db)
         else if find (\<lambda>u. user_id u = user_id req_user) (ts_users db) = None
         then (Inl (handlePrismaError P2003), db)
         else (Inr row, db\<lparr>ts_issues := ts_issues db @ [row]\<rparr>))"

text \<open>
  The route: \<^verbatim>\<open>router.use(authenticate)\<close>, \<^verbatim>\<open>validateCreateIssue\<close>, the handler (the rate
  limiter is left out). A success is answered with 201.
\<close>

definition create_issue_route ::
  "(string \<Rightarrow> string + string) \<Rightarrow> (string \<Rightarrow> bool) \<Rightarrow> (string \<Rightarrow> string) \<Rightarrow> ts_db \<Rightarrow>
     string \<Rightarrow> time \<Rightarrow> string option \<Rightarrow> (string \<rightharpoonup> json) \<Rightarrow> (http_error + issue) \<times> ts_db" where
  "create_issue_route verifyAccessToken is_email toLowerCase db newId now authHeader body =
     (case authenticate verifyAccessToken (ts_users db) authHeader of
        Inl e \<Rightarrow> (Inl e, db)
      | Inr u \<Rightarrow>
          (case validateCreateIssue is_email body of
             Inl e \<Rightarrow> (Inl e, db)
           | Inr req \<Rightarrow> create_issue toLowerCase db newId now u req))"

subsection \<open>\<^verbatim>\<open>GET /issues/:id\<close>\<close>

definition get_issue :: "ts_db \<Rightarrow> string \<Rightarrow> http_error + issue" where
  "get_issue db ident =
     (case find (\<lambda>i. issue_id i = ident) (ts_issues db) of
        None \<Rightarrow> Inl (ApiError ''Resource not found'' 404
                       (''Issue with ID '' @ ident @ '' does not exist''))
      | Some i \<Rightarrow> Inr i)"

text \<open>
  The route: \<^verbatim>\<open>router.use(authenticate)\<close>, \<^verbatim>\<open>validateUuidParam\<close>, the handler. A success is
  answered with 200.
\<close>

definition get_issue_route ::
  "(string \<Rightarrow> string + string) \<Rightarrow> (string \<Rightarrow> bool) \<Rightarrow> ts_db \<Rightarrow> string option \<Rightarrow> string \<Rightarrow>
     http_error + issue" where
  "get_issue_route verifyAccessToken is_uuid db authHeader ident =
     (case authenticate verifyAccessToken (ts_users db) authHeader of
        Inl e \<Rightarrow> Inl e
      | Inr u \<Rightarrow>
          (case validateUuidParam is_uuid ident of
             Inl e \<Rightarrow> Inl e
           | Inr i \<Rightarrow> get_issue db i))"

subsection \<open>\<^verbatim>\<open>PATCH /issues/:id/triage\<close>\<close>

text \<open>
  \<^verbatim>\<open>updateData\<close>: \<^verbatim>\<open>severity\<close> and \<^verbatim>\<open>updatedAt\<close> are always set; \<^verbatim>\<open>status\<close>, \<^verbatim>\<open>resolvedAt\<close>
  and \<^verbatim>\<open>assignedToId\<close> are set or left out.
\<close>

record update_data =
  set_severity :: Severity
  set_updatedAt :: time
  set_status :: "Status option"
  set_resolvedAt :: "time option"
  set_assignedToId :: "string option"

text \<open>
  \<^verbatim>\<open>prisma.issue.update({ where: { id }, data })\<close>: one statement, which writes the keys
  that \<^verbatim>\<open>data\<close> has and leaves the other columns as they are. It fails with P2025 when no
  row has the id and with P2003 when the assignee is not a user; a failed update
  writes nothing.
\<close>

definition apply_update :: "update_data \<Rightarrow> issue \<Rightarrow> issue" where
  "apply_update d i =
     i\<lparr>severity := set_severity d,
       updatedAt := set_updatedAt d,
       status := (case set_status d of None \<Rightarrow> status i | Some s \<Rightarrow> s),
       resolvedAt := (case set_resolvedAt d of None \<Rightarrow> resolvedAt i | Some t \<Rightarrow> Some t),
       assignedToId := (case set_assignedToId d of None \<Rightarrow> assignedToId i | Some a \<Rightarrow> Some a)\<rparr>"

definition issue_update ::
  "ts_db \<Rightarrow> string \<Rightarrow> update_data \<Rightarrow> prisma_error + (issue \<times> ts_db)" where
  "issue_update db ident d =
     (case find (\<lambda>i. issue_id i = ident) (ts_issues db) of
        None \<Rightarrow> Inl P2025
      | Some i \<Rightarrow>
          if (case set_assignedToId d of
                Some a \<Rightarrow> find (\<lambda>u. user_id u = a) (ts_users db) = None
              | None \<Rightarrow> False)
          then Inl P2003
          else Inr (apply_update d i,
                    db\<lparr>ts_issues :=
                         map (\<lambda>x. if issue_id x = ident then apply_update d x else x)
                           (ts_issues db)\<rparr>))"

text \<open>
  The handler. It reads the clock twice: \<open>t_updated\<close> is the \<^verbatim>\<open>new Date()\<close> of
  \<^verbatim>\<open>updatedAt\<close>, \<open>t_resolved\<close> the \<^verbatim>\<open>new Date()\<close> of \<^verbatim>\<open>resolvedAt\<close>. \<^verbatim>\<open>if (assignedTo)\<close> is
  false for a missing and for an empty string; \<^verbatim>\<open>if (assignedTo !== undefined)\<close> is false
  for a missing one only. A success is answered with 200.
\<close>

definition triage_issue ::
  "ts_db \<Rightarrow> time \<Rightarrow> time \<Rightarrow> string \<Rightarrow> triage_request \<Rightarrow> (http_error + issue) \<times> ts_db" where
  "triage_issue db t_updated t_resolved ident req =
     (case find (\<lambda>i. issue_id i = ident) (ts_issues db) of
        None \<Rightarrow> (Inl (ApiError ''Resource not found'' 404
                        (''Issue with ID '' @ ident @ '' does not exist'')), db)
      | Some existingIssue \<Rightarrow>
          (case (case req_assignedTo req of
                   Some a \<Rightarrow>
                     if a \<noteq> [] \<and> find (\<lambda>u. user_id u = a) (ts_users db) = None
                     then Some a else None
                 | None \<Rightarrow> None) of
             Some a \<Rightarrow>
               (Inl (ApiError ''Invalid reference'' 400
                       (''User with ID '' @ a @ '' does not exist'')), db)
           | None \<Rightarrow>
            (let updateData =
                   \<lparr>set_severity = req_severity req,
                    set_updatedAt = t_updated,
                    set_status = req_status req,
                    set_resolvedAt =
                      (case req_status req of
                         Some s \<Rightarrow> if s = RESOLVED \<or> s = CLOSED then Some t_resolved else None
                       | None \<Rightarrow> None),
                    set_assignedToId = req_assignedTo req\<rparr>
             in case issue_update db ident updateData of
                  Inl e \<Rightarrow> (Inl (handlePrismaError e), db)
                | Inr (updatedIssue, db') \<Rightarrow> (Inr updatedIssue, db'))))"

text \<open>
  The route: \<^verbatim>\<open>router.use(authenticate)\<close>, \<^verbatim>\<open>validateUuidParam\<close>, \<^verbatim>\<open>validateTriageIssue\<close>,
  the handler. No middleware of the route looks at the caller's role.
\<close>

definition triage_route ::
  "(string \<Rightarrow> string + string) \<Rightarrow> (string \<Rightarrow> bool) \<Rightarrow> ts_db \<Rightarrow> time \<Rightarrow> time \<Rightarrow>
     string option \<Rightarrow> string \<Rightarrow> (string \<rightharpoonup> json) \<Rightarrow> (http_error + issue) \<times> ts_db" where
  "triage_route verifyAccessToken is_uuid db t_updated t_resolved authHeader ident body =
     (case authenticate verifyAccessToken (ts_users db) authHeader of
        Inl e \<Rightarrow> (Inl e, db)
      | Inr u \<Rightarrow>
          (case validateUuidParam is_uuid ident of
             Inl e \<Rightarrow> (Inl e, db)
           | Inr i \<Rightarrow>
               (case validateTriageIssue is_uuid body of
                  Inl e \<Rightarrow> (Inl e, db)
                | Inr req \<Rightarrow> triage_issue db t_updated t_resolved i req)))"

subsection \<open>\<^verbatim>\<open>GET /issues\<close>\<close>

text \<open>
  The \<^verbatim>\<open>where\<close> clause: equality on \<^verbatim>\<open>status\<close>, \<^verbatim>\<open>severity\<close> and \<^verbatim>\<open>type\<close>, and for \<^verbatim>\<open>q\<close> a
  \<^verbatim>\<open>contains\<close> on the title, the description or the tracking number with
  \<^verbatim>\<open>mode: 'insensitive'\<close>, the database's match without regard to case, which is taken
  here to fold the ASCII letters.
\<close>

definition fold_char :: "char \<Rightarrow> char" where
  "fold_char c =
     (let n = (of_char c :: nat) in if 65 \<le> n \<and> n \<le> 90 then char_of (n + 32) else c)"

definition fold_case :: "string \<Rightarrow> string" where
  "fold_case s = map fold_char s"

fun contains :: "string \<Rightarrow> string \<Rightarrow> bool" where
  "contains [] n = (n = [])"
| "contains (c # cs) n = (take (length n) (c # cs) = n \<or> contains cs n)"

definition contains_insensitive :: "string \<Rightarrow> string \<Rightarrow> bool" where
  "contains_insensitive field n = contains (fold_case field) (fold_case n)"

definition issue_where :: "issue_filters \<Rightarrow> issue \<Rightarrow> bool" where
  "issue_where f i \<longleftrightarrow>
     (case f_status f of None \<Rightarrow> True | Some s \<Rightarrow> status i = s) \<and>
     (case f_severity f of None \<Rightarrow> True | Some s \<Rightarrow> severity i = s) \<and>
     (case f_type f of None \<Rightarrow> True | Some t \<Rightarrow> issue_type i = t) \<and>
     (case f_q f of
        None \<Rightarrow> True
      | Some n \<Rightarrow>
          n = [] \<or> contains_insensitive (title i) n \<or> contains_insensitive (description i) n \<or>
          contains_insensitive (trackingNumber i) n)"

text \<open>
  The sort key of \<^verbatim>\<open>orderBy: [{ createdAt: 'desc' }, { id: 'desc' }]\<close>; ids are compared
  as strings.
\<close>

definition issue_key :: "issue \<Rightarrow> time \<times> string" where
  "issue_key i = (createdAt i, issue_id i)"

text \<open>
  \<^verbatim>\<open>prisma.issue.findMany({ where, cursor, skip, take, orderBy })\<close>, as Prisma documents
  and implements it. The rows that satisfy \<^verbatim>\<open>where\<close> are put in the order of \<^verbatim>\<open>orderBy\<close>.
  Without a cursor the first \<^verbatim>\<open>take\<close> of them are returned. With \<^verbatim>\<open>cursor: { id }\<close> the
  result starts at the position of the row of the table with that id (the rows not
  before it in the order), \<^verbatim>\<open>skip: 1\<close> drops the first of these, and nothing is returned
  when no row has the id. The handler passes \<^verbatim>\<open>decodedCursor.id\<close>, whatever it is: Prisma
  rejects a cursor whose id is missing or not a string (a \<^verbatim>\<open>PrismaClientValidationError\<close>,
  which the error handler answers with 400).
\<close>

definition findMany_issues ::
  "ts_db \<Rightarrow> (issue \<Rightarrow> bool) \<Rightarrow> json option option \<Rightarrow> nat \<Rightarrow> http_error + issue list" where
  "findMany_issues db wh cursorCondition n =
     (let ordered = rev (sort_key issue_key (filter wh (ts_issues db)))
      in case cursorCondition of
           None \<Rightarrow> Inr (take n ordered)
         | Some (Some (JStr cid)) \<Rightarrow>
             (case find (\<lambda>i. issue_id i = cid) (ts_issues db) of
                None \<Rightarrow> Inr []
              | Some c \<Rightarrow>
                  Inr (take n (drop 1 (filter (\<lambda>i. issue_key i \<le> issue_key c) ordered))))
         | Some _ \<Rightarrow> Inl (ApiError ''Invalid data format'' 400 []))"

text \<open>
  The read of \<^verbatim>\<open>decodedCursor.id\<close> inside the handler's \<^verbatim>\<open>try\<close>: it throws on \<^verbatim>\<open>null\<close>, is
  the member \<^verbatim>\<open>id\<close> of an object, and is \<^verbatim>\<open>undefined\<close> on every other value.
\<close>

definition decodedCursor_id :: "json \<Rightarrow> http_error + json option" where
  "decodedCursor_id j =
     (case j of
        JNull \<Rightarrow> Inl (ApiError ''Invalid cursor format'' 400 [])
      | JObj members \<Rightarrow> Inr (map_of members ''id'')
      | _ \<Rightarrow> Inr None)"

record issue_page =
  page_data :: "issue list"
  page_cursor :: "string option"
  nextCursor :: "(time \<times> string) option"
  hasMore :: bool
  page_limit :: int

text \<open>
  The handler. \<open>decode c\<close> stands for \<^verbatim>\<open>JSON.parse(Buffer.from(c, 'base64').toString())\<close>:
  the parsed value, or \<open>None\<close> when \<^verbatim>\<open>JSON.parse\<close> throws. \<^verbatim>\<open>nextCursor\<close> is given by the
  \<^verbatim>\<open>cursorData\<close> that the handler encodes, the \<^verbatim>\<open>createdAt\<close> and \<^verbatim>\<open>id\<close> of the last row of
  the page.
\<close>

definition list_issues ::
  "(string \<Rightarrow> json option) \<Rightarrow> ts_db \<Rightarrow> issue_filters \<Rightarrow> http_error + issue_page" where
  "list_issues decode db f =
     (case (case f_cursor f of
              None \<Rightarrow> Inr None
            | Some c \<Rightarrow>
                if c = [] then Inr None
                else (case decode c of
                        None \<Rightarrow> Inl (ApiError ''Invalid cursor format'' 400 [])
                      | Some j \<Rightarrow> map_sum id Some (decodedCursor_id j))) of
        Inl e \<Rightarrow> Inl e
      | Inr cursorCondition \<Rightarrow>
          (case findMany_issues db (issue_where f) cursorCondition (nat (f_limit f + 1)) of
             Inl e \<Rightarrow> Inl e
           | Inr issues \<Rightarrow>
               (let more = f_limit f < int (length issues);
                    rows = (if more then butlast issues else issues)
                in Inr \<lparr>page_data = rows,
                        page_cursor = (case f_cursor f of
                                         Some c \<Rightarrow> if c = [] then None else Some c
                                       | None \<Rightarrow> None),
                        nextCursor = (if more \<and> rows \<noteq> []
                                      then Some (createdAt (last rows), issue_id (last rows))
                                      else None),
                        hasMore = more,
                        page_limit = f_limit f\<rparr>)))"

text \<open>
  The route: \<^verbatim>\<open>router.use(authenticate)\<close>, \<^verbatim>\<open>validateIssueFilters\<close>, the handler. A success
  is answered with 200.
\<close>

definition list_issues_route ::
  "(string \<Rightarrow> string + string) \<Rightarrow> (string \<Rightarrow> json option) \<Rightarrow> ts_db \<Rightarrow> string option \<Rightarrow>
     issue_query \<Rightarrow> http_error + issue_page" where
  "list_issues_route verifyAccessToken decode db authHeader q =
     (case authenticate verifyAccessToken (ts_users db) authHeader of
        Inl e \<Rightarrow> Inl e
      | Inr u \<Rightarrow>
          (case validateIssueFilters q of
             Inl e \<Rightarrow> Inl e
           | Inr f \<Rightarrow> list_issues decode db f))"

section \<open>JavaScript back end: the support-only routes of \<^verbatim>\<open>routes/issues.js\<close>\<close>

text \<open>
  \<^verbatim>\<open>authenticate\<close> of \<^verbatim>\<open>middleware/auth.js\<close>. \<open>verifyToken t\<close> stands for the function of that
  name (\<^verbatim>\<open>jwt.verify\<close> with the server's secret at the time of the call): the \<^verbatim>\<open>userId\<close> of
  the decoded payload, or \<open>None\<close> when it returns \<^verbatim>\<open>null\<close>. The errors go through
  \<^verbatim>\<open>next(error)\<close> to the error handler.
\<close>

definition authenticate_js ::
  "(string \<Rightarrow> string option) \<Rightarrow> user list \<Rightarrow> string option \<Rightarrow> http_error + user" where
  "authenticate_js verifyToken users authHeader =
     (case authHeader of
        None \<Rightarrow> Inl (UnauthorizedError ''No token provided'')
      | Some h \<Rightarrow>
          if h = [] \<or> take 7 h \<noteq> ''Bearer '' then Inl (UnauthorizedError ''No token provided'')
          else
            (case verifyToken (drop 7 h) of
               None \<Rightarrow> Inl (UnauthorizedError ''Invalid token'')
             | Some uid \<Rightarrow>
                 (case find (\<lambda>u. user_id u = uid) users of
                    None \<Rightarrow> Inl (UnauthorizedError ''User not found'')
                  | Some u \<Rightarrow> Inr u)))"

subsection \<open>\<^verbatim>\<open>PATCH /issues/:id/status\<close>\<close>

text \<open>\<^verbatim>\<open>issueIdSchema\<close> with \<^verbatim>\<open>validateParams\<close>, and \<^verbatim>\<open>statusUpdateSchema\<close> with \<^verbatim>\<open>validateBody\<close>.\<close>

definition issueIdSchema :: "string \<Rightarrow> http_error + string" where
  "issueIdSchema ident = (if 1 \<le> length ident then Inr ident else Inl ValidationError)"

definition statusUpdateSchema :: "(string \<rightharpoonup> json) \<Rightarrow> http_error + string" where
  "statusUpdateSchema body =
     (case body ''status'' of
        Some (JStr s) \<Rightarrow>
          if s \<in> set [''OPEN'', ''IN_PROGRESS'', ''RESOLVED''] then Inr s else Inl ValidationError
      | _ \<Rightarrow> Inl ValidationError)"

text \<open>
  The handler: \<^verbatim>\<open>findUnique\<close>, then \<^verbatim>\<open>update\<close> of \<^verbatim>\<open>status\<close> and \<^verbatim>\<open>updatedAt\<close>. The answer
  carries the updated row.
\<close>

definition update_status ::
  "js_db \<Rightarrow> time \<Rightarrow> string \<Rightarrow> string \<Rightarrow> (http_error + js_issue) \<times> js_db" where
  "update_status db now ident st =
     (case find (\<lambda>i. js_id i = ident) (js_issues db) of
        None \<Rightarrow> (Inl (NotFoundError ''Issue not found''), db)
      | Some issue \<Rightarrow>
          (Inr (issue\<lparr>js_status := st, js_updatedAt := now\<rparr>),
           db\<lparr>js_issues :=
                map (\<lambda>i. if js_id i = ident then i\<lparr>js_status := st, js_updatedAt := now\<rparr> else i)
                  (js_issues db)\<rparr>))"

text \<open>
  The route: \<^verbatim>\<open>authenticate\<close>, \<^verbatim>\<open>requireSupport\<close>, \<^verbatim>\<open>validateParams(issueIdSchema)\<close>,
  \<^verbatim>\<open>validateBody(statusUpdateSchema)\<close>, the handler.
\<close>

definition update_status_route ::
  "(string \<Rightarrow> string option) \<Rightarrow> js_db \<Rightarrow> time \<Rightarrow> string option \<Rightarrow> string \<Rightarrow> (string \<rightharpoonup> json) \<Rightarrow>
     (http_error + js_issue) \<times> js_db" where
  "update_status_route verifyToken db now authHeader ident body =
     (case authenticate_js verifyToken (js_users db) authHeader of
        Inl e \<Rightarrow> (Inl e, db)
      | Inr u \<Rightarrow>
          (case requireSupport (Some u) of
             Inl e \<Rightarrow> (Inl e, db)
           | Inr _ \<Rightarrow>
               (case issueIdSchema ident of
                  Inl e \<Rightarrow> (Inl e, db)
                | Inr i \<Rightarrow>
                    (case statusUpdateSchema body of
                       Inl e \<Rightarrow> (Inl e, db)
                     | Inr st \<Rightarrow> update_status db now i st))))"

subsection \<open>\<^verbatim>\<open>GET /issues\<close>\<close>

text \<open>
  The query: each parameter is absent or a string; for \<^verbatim>\<open>limit\<close> the string is given by
  what \<^verbatim>\<open>Number\<close> makes of it (\<^verbatim>\<open>z.coerce.number()\<close>). \<open>is_datetime\<close> stands for Zod's
  \<^verbatim>\<open>string().datetime()\<close>.
\<close>

record js_query =
  jq_orderId :: "string option"
  jq_status :: "string option"
  jq_severity :: "string option"
  jq_from :: "string option"
  jq_to :: "string option"
  jq_cursor :: "string option"
  jq_limit :: "query_number option"

record js_filters =
  jf_orderId :: "string option"
  jf_status :: "string option"
  jf_severity :: "string option"
  jf_from :: "string option"
  jf_to :: "string option"
  jf_cursor :: "string option"
  jf_limit :: nat

text \<open>\<^verbatim>\<open>getIssuesSchema\<close> with \<^verbatim>\<open>validateQuery\<close>.\<close>

definition getIssuesSchema :: "(string \<Rightarrow> bool) \<Rightarrow> js_query \<Rightarrow> http_error + js_filters" where
  "getIssuesSchema is_datetime q =
     (if (case jq_status q of
            Some s \<Rightarrow> s \<notin> set [''OPEN'', ''IN_PROGRESS'', ''RESOLVED'']
          | None \<Rightarrow> False) \<or>
         (case jq_severity q of Some s \<Rightarrow> s \<notin> set [''LOW'', ''MEDIUM'', ''HIGH''] | None \<Rightarrow> False) \<or>
         (case jq_from q of Some s \<Rightarrow> \<not> is_datetime s | None \<Rightarrow> False) \<or>
         (case jq_to q of Some s \<Rightarrow> \<not> is_datetime s | None \<Rightarrow> False) \<or>
         (case jq_limit q of
            None \<Rightarrow> False
          | Some (QInt n) \<Rightarrow> n < 1 \<or> 100 < n
          | Some _ \<Rightarrow> True)
      then Inl ValidationError
      else Inr \<lparr>jf_orderId = jq_orderId q, jf_status = jq_status q,
                jf_severity = jq_severity q, jf_from = jq_from q, jf_to = jq_to q,
                jf_cursor = jq_cursor q,
                jf_limit = (case jq_limit q of Some (QInt n) \<Rightarrow> nat n | _ \<Rightarrow> 20)\<rparr>)"

text \<open>
  The dates of the \<^verbatim>\<open>where\<close> clause. \<open>parseDate s\<close> stands for \<^verbatim>\<open>new Date(s)\<close>: the instant, or
  \<open>None\<close> for an invalid date. \<^verbatim>\<open>if (from)\<close>, \<^verbatim>\<open>if (to)\<close> and \<^verbatim>\<open>if (cursor)\<close> are false for a
  missing and for an empty string. The result is the bounds \<^verbatim>\<open>gte\<close>, \<^verbatim>\<open>lte\<close> and \<^verbatim>\<open>lt\<close> that
  are set, or \<open>None\<close> when one of the dates is invalid, which Prisma refuses.
\<close>

definition date_bound :: "(string \<Rightarrow> time option) \<Rightarrow> string option \<Rightarrow> time option option" where
  "date_bound parseDate v =
     (case v of
        None \<Rightarrow> Some None
      | Some s \<Rightarrow> if s = [] then Some None else map_option Some (parseDate s))"

definition js_where :: "js_filters \<Rightarrow> time option \<Rightarrow> time option \<Rightarrow> time option \<Rightarrow> js_issue \<Rightarrow> bool" where
  "js_where f gte lte lt i \<longleftrightarrow>
     (case jf_orderId f of
        None \<Rightarrow> True
      | Some n \<Rightarrow> n = [] \<or> contains_insensitive (orderId i) n) \<and>
     (case jf_status f of None \<Rightarrow> True | Some s \<Rightarrow> s = [] \<or> js_status i = s) \<and>
     (case jf_severity f of None \<Rightarrow> True | Some s \<Rightarrow> s = [] \<or> js_severity i = s) \<and>
     (case gte of None \<Rightarrow> True | Some t \<Rightarrow> t \<le> js_createdAt i) \<and>
     (case lte of None \<Rightarrow> True | Some t \<Rightarrow> js_createdAt i \<le> t) \<and>
     (case lt of None \<Rightarrow> True | Some t \<Rightarrow> js_createdAt i < t)"

record js_page =
  jp_items :: "js_issue list"
  jp_hasMore :: bool
  jp_nextCursor :: "time option"
  jp_limit :: nat

text \<open>
  The handler. \<^verbatim>\<open>findMany\<close> with \<^verbatim>\<open>orderBy: { createdAt: 'desc' }\<close> and \<^verbatim>\<open>take: limit + 1\<close>;
  rows created at the same instant come in an order that the database chooses, here
  the reverse of their order in the table. An invalid date makes Prisma throw, which the
  error handler answers with 500, and so does the read of \<^verbatim>\<open>createdAt\<close> on a last item
  that is not there. \<^verbatim>\<open>nextCursor\<close> is given by the instant whose ISO text the handler
  sends.
\<close>

definition list_issues_js ::
  "(string \<Rightarrow> time option) \<Rightarrow> js_db \<Rightarrow> js_filters \<Rightarrow> http_error + js_page" where
  "list_issues_js parseDate db f =
     (case (date_bound parseDate (jf_from f), date_bound parseDate (jf_to f),
            date_bound parseDate (jf_cursor f)) of
        (Some gte, Some lte, Some lt) \<Rightarrow>
          (let issues = take (jf_limit f + 1)
                 (rev (sort_key js_createdAt (filter (js_where f gte lte lt) (js_issues db))));
               more = jf_limit f < length issues;
               items = (if more then take (jf_limit f) issues else issues)
           in if more \<and> items = [] then Inl InternalError
              else Inr \<lparr>jp_items = items, jp_hasMore = more,
                        jp_nextCursor = (if more then Some (js_createdAt (last items)) else None),
                        jp_limit = jf_limit f\<rparr>)
      | _ \<Rightarrow> Inl InternalError)"

text \<open>
  The route: \<^verbatim>\<open>authenticate\<close>, \<^verbatim>\<open>requireSupport\<close>, \<^verbatim>\<open>validateQuery(getIssuesSchema)\<close>, the
  handler.
\<close>

definition list_issues_js_route ::
  "(string \<Rightarrow> string option) \<Rightarrow> (string \<Rightarrow> bool) \<Rightarrow> (string \<Rightarrow> time option) \<Rightarrow> js_db \<Rightarrow>
     string option \<Rightarrow> js_query \<Rightarrow> http_error + js_page" where
  "list_issues_js_route verifyToken is_datetime parseDate db authHeader q =
     (case authenticate_js verifyToken (js_users db) authHeader of
        Inl e \<Rightarrow> Inl e
      | Inr u \<Rightarrow>
          (case requireSupport (Some u) of
             Inl e \<Rightarrow> Inl e
           | Inr _ \<Rightarrow>
               (case getIssuesSchema is_datetime q of
                  Inl e \<Rightarrow> Inl e
                | Inr f \<Rightarrow> list_issues_js parseDate db f)))"

section \<open>TypeScript back end: \<^verbatim>\<open>POST /auth/logout\<close> of \<^verbatim>\<open>routes/auth.ts\<close>\<close>


section \<open>JavaScript back end: \<^verbatim>\<open>POST /auth/logout\<close> of \<^verbatim>\<open>routes/auth.js\<close>\<close>

text \<open>\<^verbatim>\<open>validateBody(refreshTokenSchema)\<close>, then \<^verbatim>\<open>revokeRefreshToken\<close>.\<close>

definition logout_js :: "js_db \<Rightarrow> (string \<rightharpoonup> json) \<Rightarrow> (http_error + unit) \<times> js_db" where
  "logout_js db body =
     (case refreshTokenSchema body of
        Inl e \<Rightarrow> (Inl e, db)
      | Inr tok \<Rightarrow> (Inr (), revokeRefreshToken db tok))"


text \<open>
  \<^verbatim>\<open>cursorData\<close> of \<^verbatim>\<open>GET /issues\<close> in \<^verbatim>\<open>routes/issues.ts\<close>: the object that the handler
  stringifies and encodes as \<^verbatim>\<open>nextCursor\<close>, for the pair of the \<^verbatim>\<open>createdAt\<close> and the \<^verbatim>\<open>id\<close>
  of the last row of the page. \<open>toISOString\<close> stands for \<^verbatim>\<open>Date.prototype.toISOString\<close>.
\<close>

definition cursorData :: "(time \<Rightarrow> string) \<Rightarrow> time \<times> string \<Rightarrow> json" where
  "cursorData toISOString p =
     JObj [(''createdAt'', JStr (toISOString (fst p))), (''id'', JStr (snd p))]"

section \<open>Example data\<close>

definition alice :: user where
  "alice = \<lparr>user_id = ''u1'', email = ''alice@example.com'', name = ''Alice'', role = ''CUSTOMER''\<rparr>"

definition bob :: user where
  "bob = \<lparr>user_id = ''u2'', email = ''bob@example.com'', name = ''Bob'', role = ''SUPPORT''\<rparr>"

definition js_db0 :: js_db where
  "js_db0 =
     \<lparr>js_users = [alice, bob],
      js_refreshTokens =
        [\<lparr>rt_id = ''r1'', userId = ''u1'', token = ''tok-a'', expiresAt = 1000,
          rt_createdAt = 0, revoked = False\<rparr>,
         \<lparr>rt_id = ''r2'', userId = ''u2'', token = ''tok-b'', expiresAt = 2000,
          rt_createdAt = 0, revoked = True\<rparr>],
      js_issues =
        [\<lparr>js_id = ''j1'', orderId = ''ORD-1'', js_type = ''LATE'', js_severity = ''LOW'',
          js_status = ''OPEN'', js_description = ''Two days late'', customerId = ''u1'',
          js_createdAt = 100, js_updatedAt = 100\<rparr>]\<rparr>"

definition issue_a :: issue where
  "issue_a =
     \<lparr>issue_id = ''a'', trackingNumber = ''TRK-1'', issue_type = PACKAGE_DAMAGED,
      severity = MEDIUM, status = OPEN, title = ''Box crushed'',
      description = ''Arrived crushed'', customerEmail = ''alice@example.com'',
      customerPhone = None, assignedToId = None, createdById = ''u1'',
      createdAt = 3000, updatedAt = 3000, resolvedAt = None\<rparr>"

definition issue_b :: issue where
  "issue_b =
     \<lparr>issue_id = ''b'', trackingNumber = ''TRK-2'', issue_type = PACKAGE_LOST,
      severity = HIGH, status = RESOLVED, title = ''Parcel lost'',
      description = ''Never arrived'', customerEmail = ''bob@example.com'',
      customerPhone = None, assignedToId = Some ''u2'', createdById = ''u2'',
      createdAt = 2000, updatedAt = 2500, resolvedAt = Some 2500\<rparr>"

definition issue_c :: issue where
  "issue_c =
     \<lparr>issue_id = ''c'', trackingNumber = ''TRK-3'', issue_type = DELIVERY_DELAY,
      severity = LOW, status = OPEN, title = ''Late parcel'',
      description = ''Two days late'', customerEmail = ''alice@example.com'',
      customerPhone = None, assignedToId = None, createdById = ''u1'',
      createdAt = 1000, updatedAt = 1000, resolvedAt = None\<rparr>"

definition ts_db0 :: ts_db where
  "ts_db0 =
     \<lparr>ts_users = [alice, bob],
      ts_refreshTokens =
        [\<lparr>rt_id = ''r1'', userId = ''u1'', token = ''tok-a'', expiresAt = 1000, rt_createdAt = 0\<rparr>,
         \<lparr>rt_id = ''r2'', userId = ''u2'', token = ''tok-b'', expiresAt = 9000, rt_createdAt = 0\<rparr>],
      ts_issues = [issue_c, issue_a, issue_b]\<rparr>"

definition issue_u :: issue where
  "issue_u =
     \<lparr>issue_id = ''660e8400-e29b-41d4-a716-446655440000'', trackingNumber = ''TRK-9'',
      issue_type = WRONG_ADDRESS, severity = MEDIUM, status = OPEN, title = ''Wrong door'',
      description = ''Left next door'', customerEmail = ''bob@example.com'',
      customerPhone = None, assignedToId = None, createdById = ''u2'',
      createdAt = 4000, updatedAt = 4000, resolvedAt = None\<rparr>"

definition ts_db1 :: ts_db where
  "ts_db1 = \<lparr>ts_users = [alice, bob], ts_refreshTokens = [], ts_issues = [issue_u]\<rparr>"

text \<open>Access tokens of the two users, and the one id that is tested for being a UUID.\<close>

definition verify0 :: "string \<Rightarrow> string + string" where
  "verify0 t =
     (if t = ''token-of-alice'' then Inr ''u1''
      else if t = ''token-of-bob'' then Inr ''u2''
      else Inl ''Invalid access token'')"

definition is_uuid0 :: "string \<Rightarrow> bool" where
  "is_uuid0 s \<longleftrightarrow> s = ''660e8400-e29b-41d4-a716-446655440000''"

text \<open>
  \<^verbatim>\<open>Date.prototype.toISOString\<close> on the instants of the example, and the cursor that the
  handler issues for the pair of the instant 3000 and the id \<^verbatim>\<open>a\<close>: the Base64 text of
  \<^verbatim>\<open>{"createdAt":"1970-01-01T00:00:03.000Z","id":"a"}\<close>, with what \<^verbatim>\<open>JSON.parse\<close> makes of
  its decoding.
\<close>

definition toISOString0 :: "time \<Rightarrow> string" where
  "toISOString0 t =
     (if t = 1000 then ''1970-01-01T00:00:01.000Z''
      else if t = 2000 then ''1970-01-01T00:00:02.000Z''
      else if t = 3000 then ''1970-01-01T00:00:03.000Z''
      else [])"

definition cursor0 :: string where
  "cursor0 = ''eyJjcmVhdGVkQXQiOiIxOTcwLTAxLTAxVDAwOjAwOjAzLjAwMFoiLCJpZCI6ImEifQ==''"

definition decode0 :: "string \<Rightarrow> json option" where
  "decode0 c =
     (if c = cursor0
      then Some (JObj [(''createdAt'', JStr ''1970-01-01T00:00:03.000Z''), (''id'', JStr ''a'')])
      else None)"

definition no_filters :: issue_filters where
  "no_filters =
     \<lparr>f_status = None, f_severity = None, f_type = None, f_q = None, f_cursor = None,
      f_limit = 20\<rparr>"


definition is_email0 :: "string \<Rightarrow> bool" where
  "is_email0 s \<longleftrightarrow> s = ''Customer@Example.com''"

definition create_body0 :: "string \<rightharpoonup> json" where
  "create_body0 =
     [''trackingNumber'' \<mapsto> JStr ''TRK123456789'', ''type'' \<mapsto> JStr ''PACKAGE_DAMAGED'',
      ''title'' \<mapsto> JStr ''Package arrived damaged'',
      ''description'' \<mapsto> JStr ''Customer reports visible damage.'',
      ''customerEmail'' \<mapsto> JStr ''Customer@Example.com'',
      ''severity'' \<mapsto> JStr ''CRITICAL'', ''status'' \<mapsto> JStr ''CLOSED'']"

text \<open>
  \<^verbatim>\<open>String.prototype.toLowerCase\<close> on the one address of the example, and the access
  tokens of the two users as \<^verbatim>\<open>verifyToken\<close> of the JavaScript back end reads them.
\<close>

definition toLowerCase0 :: "string \<Rightarrow> string" where
  "toLowerCase0 s = (if s = ''Customer@Example.com'' then ''customer@example.com'' else s)"

definition verifyToken0 :: "string \<Rightarrow> string option" where
  "verifyToken0 t =
     (if t = ''token-of-alice'' then Some ''u1''
      else if t = ''token-of-bob'' then Some ''u2''
      else None)"

definition no_js_query :: js_query where
  "no_js_query =
     \<lparr>jq_orderId = None, jq_status = None, jq_severity = None, jq_from = None, jq_to = None,
      jq_cursor = None, jq_limit = None\<rparr>"

section \<open>Properties\<close>

subsection \<open>Helper lemmas\<close>

lemma find_SomeD: "find P xs = Some x \<Longrightarrow> x \<in> set xs \<and> P x"
  by (induction xs) (auto split: if_splits)

















lemma js_logout: "refreshTokenSchema body = Inr tok \<Longrightarrow>
   snd (logout_js db body) = revokeRefreshToken db tok"
  by (simp add: logout_js_def)




subsection \<open>C1: validation of a refresh token\<close>




subsection \<open>C8: a refresh does not rotate the refresh token\<close>

text \<open>
  C8. A \<^verbatim>\<open>POST /auth/refresh\<close> that succeeds, in either back end, answers with an access
  token only and leaves the database as it was: no refresh-token row is created,
  changed or removed. The presented token is still stored, and presenting it again at
  any time up to its \<^verbatim>\<open>expiresAt\<close> succeeds again (in the TypeScript back end, as long as
  \<^verbatim>\<open>verifyRefreshToken\<close> still accepts it).
\<close>

theorem refresh_does_not_rotate:
  "(refresh_ts verify sign db now body = (Inr t, db') \<longrightarrow>
      db' = db \<and>
      (\<exists>tok r. validateRefreshTokenBody body = Inr tok \<and>
         find (\<lambda>r. token r = tok) (ts_refreshTokens db') = Some r \<and>
         (\<forall>later verify' sign'. verify' tok \<and> later \<le> expiresAt r \<longrightarrow>
            (\<exists>t'. refresh_ts verify' sign' db' later body = (Inr t', db'))))) \<and>
   (refresh_js jsign jdb now body = (Inr t, jdb') \<longrightarrow>
      jdb' = jdb \<and>
      (\<exists>tok r. refreshTokenSchema body = Inr tok \<and>
         find (\<lambda>r. token r = tok) (js_refreshTokens jdb') = Some r \<and> \<not> revoked r \<and>
         (\<forall>later sign'. later \<le> expiresAt r \<longrightarrow>
            (\<exists>t'. refresh_js sign' jdb' later body = (Inr t', jdb')))))"
proof (rule conjI)
  show "refresh_ts verify sign db now body = (Inr t, db') \<longrightarrow>
      db' = db \<and>
      (\<exists>tok r. validateRefreshTokenBody body = Inr tok \<and>
         find (\<lambda>r. token r = tok) (ts_refreshTokens db') = Some r \<and>
         (\<forall>later verify' sign'. verify' tok \<and> later \<le> expiresAt r \<longrightarrow>
            (\<exists>t'. refresh_ts verify' sign' db' later body = (Inr t', db'))))"
    by (auto simp: refresh_ts_def ApiError_def split: sum.splits option.splits if_splits)
next
  show "refresh_js jsign jdb now body = (Inr t, jdb') \<longrightarrow>
      jdb' = jdb \<and>
      (\<exists>tok r. refreshTokenSchema body = Inr tok \<and>
         find (\<lambda>r. token r = tok) (js_refreshTokens jdb') = Some r \<and> \<not> revoked r \<and>
         (\<forall>later sign'. later \<le> expiresAt r \<longrightarrow>
            (\<exists>t'. refresh_js sign' jdb' later body = (Inr t', jdb'))))"
    by (auto simp: refresh_js_def validateRefreshToken_def
          split: sum.splits option.splits if_splits)
qed

theorem refresh_does_not_rotate_witness:
  "refresh_ts (\<lambda>t. True) (\<lambda>u e. u @ e) ts_db0 500 [''refreshToken'' \<mapsto> JStr ''tok-b''] =
     (Inr ''u2bob@example.com'', ts_db0) \<and>
   (\<exists>t'. refresh_ts (\<lambda>t. True) (\<lambda>u e. e) ts_db0 9000 [''refreshToken'' \<mapsto> JStr ''tok-b''] =
     (Inr t', ts_db0)) \<and>
   refresh_js (\<lambda>u r. u @ r) js_db0 500 [''refreshToken'' \<mapsto> JStr ''tok-a''] =
     (Inr ''u1CUSTOMER'', js_db0) \<and>
   (\<exists>t'. refresh_js (\<lambda>u r. r) js_db0 1000 [''refreshToken'' \<mapsto> JStr ''tok-a''] =
     (Inr t', js_db0))"
proof -
  let ?body = "[''refreshToken'' \<mapsto> JStr ''tok-b'']"
  let ?jbody = "[''refreshToken'' \<mapsto> JStr ''tok-a'']"
  have call: "refresh_ts (\<lambda>t. True) (\<lambda>u e. u @ e) ts_db0 500 ?body =
      (Inr ''u2bob@example.com'', ts_db0)"
    by (simp add: refresh_ts_def validateRefreshTokenBody_def ts_db0_def alice_def bob_def)
  have jcall: "refresh_js (\<lambda>u r. u @ r) js_db0 500 ?jbody = (Inr ''u1CUSTOMER'', js_db0)"
    by (simp add: refresh_js_def refreshTokenSchema_def validateRefreshToken_def js_db0_def
          alice_def bob_def)
  note ts_fact = refresh_does_not_rotate [of "\<lambda>t. True" "\<lambda>u e. u @ e" ts_db0 500 ?body
      "''u2bob@example.com''" ts_db0]
  note js_fact = refresh_does_not_rotate [of _ _ _ 500 ?jbody "''u1CUSTOMER''" _
      "\<lambda>u r. u @ r" js_db0 js_db0]
  from mp [OF ts_fact [THEN conjunct1] call]
  obtain tok r where tok: "validateRefreshTokenBody ?body = Inr tok"
    and r: "find (\<lambda>r. token r = tok) (ts_refreshTokens ts_db0) = Some r"
    and again: "\<forall>later verify' sign'. verify' tok \<and> later \<le> expiresAt r \<longrightarrow>
            (\<exists>t'. refresh_ts verify' sign' ts_db0 later ?body = (Inr t', ts_db0))"
    by (elim conjE exE)
  from tok have tok_eq: "tok = ''tok-b''"
    by (simp add: validateRefreshTokenBody_def)
  from r have "expiresAt r = 9000"
    unfolding tok_eq by (auto simp: ts_db0_def)
  then have ts_again:
    "\<exists>t'. refresh_ts (\<lambda>t. True) (\<lambda>u e. e) ts_db0 9000 ?body = (Inr t', ts_db0)"
    using again [rule_format, where later = 9000 and verify' = "\<lambda>t. True" and sign' = "\<lambda>u e. e"]
    by simp
  from mp [OF js_fact [THEN conjunct2] jcall]
  obtain jtok jr where jtok: "refreshTokenSchema ?jbody = Inr jtok"
    and jr: "find (\<lambda>r. token r = jtok) (js_refreshTokens js_db0) = Some jr"
    and jagain: "\<forall>later sign'. later \<le> expiresAt jr \<longrightarrow>
            (\<exists>t'. refresh_js sign' js_db0 later ?jbody = (Inr t', js_db0))"
    by (elim conjE exE)
  from jtok have jtok_eq: "jtok = ''tok-a''"
    by (simp add: refreshTokenSchema_def)
  from jr have "expiresAt jr = 1000"
    unfolding jtok_eq by (auto simp: js_db0_def)
  then have js_again:
    "\<exists>t'. refresh_js (\<lambda>u r. r) js_db0 1000 ?jbody = (Inr t', js_db0)"
    using jagain [rule_format, where later = 1000 and sign' = "\<lambda>u r. r"]
    by simp
  show ?thesis
    by (rule conjI [OF call conjI [OF ts_again conjI [OF jcall js_again]]])
qed

subsection \<open>C10: what a failed refresh does to the database\<close>

text \<open>
  C10, as the code has it, for \<^verbatim>\<open>POST /auth/refresh\<close> of \<^verbatim>\<open>routes/auth.ts\<close>. When
  \<^verbatim>\<open>verifyRefreshToken\<close> accepts the token and the token is stored but expired
  (\<^verbatim>\<open>expiresAt < now\<close>), the stored row is deleted and the answer is 401. When the token
  is not stored, the answer is 401 and the database is unchanged. When
  \<^verbatim>\<open>verifyRefreshToken\<close> rejects the token, the answer is 401 and the database is
  unchanged, whether or not the token is stored and expired: the handler throws before
  it looks the token up. No other 401 changes the database.
\<close>

theorem refresh_failure_effects:
  "(validateRefreshTokenBody body = Inr tok \<and> verify tok \<and>
    find (\<lambda>r. token r = tok) (ts_refreshTokens db) = Some r \<and> expiresAt r < now \<longrightarrow>
      refresh_ts verify sign db now body =
        (Inl (HttpError 401 ''Authentication failed'' ''Refresh token has expired''),
         db\<lparr>ts_refreshTokens := filter (\<lambda>x. rt_id x \<noteq> rt_id r) (ts_refreshTokens db)\<rparr>) \<and>
      r \<notin> set (filter (\<lambda>x. rt_id x \<noteq> rt_id r) (ts_refreshTokens db))) \<and>
   (validateRefreshTokenBody body = Inr tok \<and>
    find (\<lambda>r. token r = tok) (ts_refreshTokens db) = None \<longrightarrow>
      (\<exists>e. refresh_ts verify sign db now body = (Inl e, db) \<and> statusCode e = 401)) \<and>
   (validateRefreshTokenBody body = Inr tok \<and> \<not> verify tok \<longrightarrow>
      refresh_ts verify sign db now body =
        (Inl (HttpError 401 ''Authentication failed'' ''Invalid or expired refresh token''), db)) \<and>
   (refresh_ts verify sign db now body = (Inl e, db') \<and> statusCode e = 401 \<longrightarrow>
      db' = db \<or>
      (\<exists>tok r. validateRefreshTokenBody body = Inr tok \<and> verify tok \<and>
         find (\<lambda>r. token r = tok) (ts_refreshTokens db) = Some r \<and> expiresAt r < now \<and>
         db' = db\<lparr>ts_refreshTokens :=
                    filter (\<lambda>x. rt_id x \<noteq> rt_id r) (ts_refreshTokens db)\<rparr>))"
proof (intro conjI)
  show "validateRefreshTokenBody body = Inr tok \<and> verify tok \<and>
    find (\<lambda>r. token r = tok) (ts_refreshTokens db) = Some r \<and> expiresAt r < now \<longrightarrow>
      refresh_ts verify sign db now body =
        (Inl (HttpError 401 ''Authentication failed'' ''Refresh token has expired''),
         db\<lparr>ts_refreshTokens := filter (\<lambda>x. rt_id x \<noteq> rt_id r) (ts_refreshTokens db)\<rparr>) \<and>
      r \<notin> set (filter (\<lambda>x. rt_id x \<noteq> rt_id r) (ts_refreshTokens db))"
    by (simp add: refresh_ts_def ApiError_def)
next
  show "validateRefreshTokenBody body = Inr tok \<and>
    find (\<lambda>r. token r = tok) (ts_refreshTokens db) = None \<longrightarrow>
      (\<exists>e. refresh_ts verify sign db now body = (Inl e, db) \<and> statusCode e = 401)"
    by (simp add: refresh_ts_def ApiError_def)
next
  show "validateRefreshTokenBody body = Inr tok \<and> \<not> verify tok \<longrightarrow>
      refresh_ts verify sign db now body =
        (Inl (HttpError 401 ''Authentication failed'' ''Invalid or expired refresh token''), db)"
    by (simp add: refresh_ts_def ApiError_def)
next
  show "refresh_ts verify sign db now body = (Inl e, db') \<and> statusCode e = 401 \<longrightarrow>
      db' = db \<or>
      (\<exists>tok r. validateRefreshTokenBody body = Inr tok \<and> verify tok \<and>
         find (\<lambda>r. token r = tok) (ts_refreshTokens db) = Some r \<and> expiresAt r < now \<and>
         db' = db\<lparr>ts_refreshTokens :=
                    filter (\<lambda>x. rt_id x \<noteq> rt_id r) (ts_refreshTokens db)\<rparr>)"
    by (auto simp: refresh_ts_def ApiError_def split: sum.splits option.splits if_splits)
qed

theorem refresh_failure_effects_witness:
  "refresh_ts (\<lambda>t. True) (\<lambda>u e. u @ e) ts_db0 5000 [''refreshToken'' \<mapsto> JStr ''tok-a''] =
     (Inl (HttpError 401 ''Authentication failed'' ''Refresh token has expired''),
      ts_db0\<lparr>ts_refreshTokens :=
        [\<lparr>rt_id = ''r2'', userId = ''u2'', token = ''tok-b'', expiresAt = 9000,
          rt_createdAt = 0\<rparr>]\<rparr>) \<and>
   (\<exists>e. refresh_ts (\<lambda>t. True) (\<lambda>u e. u @ e) ts_db0 5000 [''refreshToken'' \<mapsto> JStr ''tok-z''] =
     (Inl e, ts_db0) \<and> statusCode e = 401) \<and>
   refresh_ts (\<lambda>t. False) (\<lambda>u e. u @ e) ts_db0 5000 [''refreshToken'' \<mapsto> JStr ''tok-a''] =
     (Inl (HttpError 401 ''Authentication failed'' ''Invalid or expired refresh token''), ts_db0)"
proof -
  let ?r = "\<lparr>rt_id = ''r1'', userId = ''u1'', token = ''tok-a'', expiresAt = 1000,
            rt_createdAt = 0\<rparr>"
  have body_a: "validateRefreshTokenBody [''refreshToken'' \<mapsto> JStr ''tok-a''] = Inr ''tok-a''"
    and body_z: "validateRefreshTokenBody [''refreshToken'' \<mapsto> JStr ''tok-z''] = Inr ''tok-z''"
    by (simp_all add: validateRefreshTokenBody_def)
  have stored: "find (\<lambda>r. token r = ''tok-a'') (ts_refreshTokens ts_db0) = Some ?r"
    and absent: "find (\<lambda>r. token r = ''tok-z'') (ts_refreshTokens ts_db0) = None"
    by (simp_all add: ts_db0_def)
  have expired: "expiresAt ?r < (5000::int)" by simp
  have rest: "filter (\<lambda>x. rt_id x \<noteq> rt_id ?r) (ts_refreshTokens ts_db0) =
      [\<lparr>rt_id = ''r2'', userId = ''u2'', token = ''tok-b'', expiresAt = 9000, rt_createdAt = 0\<rparr>]"
    by (simp add: ts_db0_def)
  have p1: "refresh_ts (\<lambda>t. True) (\<lambda>u e. u @ e) ts_db0 5000 [''refreshToken'' \<mapsto> JStr ''tok-a''] =
     (Inl (HttpError 401 ''Authentication failed'' ''Refresh token has expired''),
      ts_db0\<lparr>ts_refreshTokens :=
        [\<lparr>rt_id = ''r2'', userId = ''u2'', token = ''tok-b'', expiresAt = 9000,
          rt_createdAt = 0\<rparr>]\<rparr>)"
    using mp [OF refresh_failure_effects [THEN conjunct1, of
          "[''refreshToken'' \<mapsto> JStr ''tok-a'']" "''tok-a''" "\<lambda>t. True" ts_db0 ?r 5000
          "\<lambda>u e. u @ e"]
        conjI [OF body_a conjI [OF TrueI conjI [OF stored expired]]]]
    by (simp only: rest)
  have p2: "\<exists>e. refresh_ts (\<lambda>t. True) (\<lambda>u e. u @ e) ts_db0 5000 [''refreshToken'' \<mapsto> JStr ''tok-z''] =
     (Inl e, ts_db0) \<and> statusCode e = 401"
    by (rule mp [OF refresh_failure_effects [THEN conjunct2, THEN conjunct1]
          conjI [OF body_z absent]])
  have p3: "refresh_ts (\<lambda>t. False) (\<lambda>u e. u @ e) ts_db0 5000 [''refreshToken'' \<mapsto> JStr ''tok-a''] =
     (Inl (HttpError 401 ''Authentication failed'' ''Invalid or expired refresh token''), ts_db0)"
    using mp [OF refresh_failure_effects [THEN conjunct2, THEN conjunct2, THEN conjunct1, of
          "[''refreshToken'' \<mapsto> JStr ''tok-a'']" "''tok-a''" "\<lambda>t. False"]]
      body_a by simp
  show ?thesis
    by (rule conjI [OF p1 conjI [OF p2 p3]])
qed

text \<open>
  C10 as stated has every 401 for a stored, expired token delete the row. A stored,
  expired token that \<^verbatim>\<open>verifyRefreshToken\<close> rejects is answered with 401 and stays in
  the table.
\<close>

theorem refresh_failure_effects_counterexample:
  "refresh_ts (\<lambda>t. False) (\<lambda>u e. u @ e) ts_db0 5000 [''refreshToken'' \<mapsto> JStr ''tok-a''] =
     (Inl (HttpError 401 ''Authentication failed'' ''Invalid or expired refresh token''), ts_db0) \<and>
   find (\<lambda>r. token r = ''tok-a'') (ts_refreshTokens ts_db0) =
     Some \<lparr>rt_id = ''r1'', userId = ''u1'', token = ''tok-a'', expiresAt = 1000,
           rt_createdAt = 0\<rparr> \<and>
   expiresAt \<lparr>rt_id = ''r1'', userId = ''u1'', token = ''tok-a'', expiresAt = 1000,
           rt_createdAt = 0\<rparr> < (5000::int)"
  by (simp add: refresh_ts_def ApiError_def validateRefreshTokenBody_def ts_db0_def)

subsection \<open>Helper lemmas on the issue table\<close>

lemma find_map_update:
  assumes "\<And>x. issue_id (g x) = issue_id x"
  shows "find (\<lambda>i. issue_id i = ident) (map (\<lambda>x. if issue_id x = ident then g x else x) xs) =
     map_option g (find (\<lambda>i. issue_id i = ident) xs)"
  using assms by (induction xs) auto

lemma apply_update_id: "issue_id (apply_update d x) = issue_id x"
  by (simp add: apply_update_def)

lemma issue_update_Inr:
  assumes "issue_update db ident d = Inr (new, db')"
  shows "\<exists>old. find (\<lambda>i. issue_id i = ident) (ts_issues db) = Some old \<and> new = apply_update d old \<and>
     find (\<lambda>i. issue_id i = ident) (ts_issues db') = Some new \<and>
     ts_users db' = ts_users db \<and> ts_refreshTokens db' = ts_refreshTokens db"
proof (cases "find (\<lambda>i. issue_id i = ident) (ts_issues db)")
  case None
  with assms show ?thesis by (simp add: issue_update_def)
next
  case (Some old)
  with assms have new: "new = apply_update d old"
    and db': "db' = db\<lparr>ts_issues :=
                         map (\<lambda>x. if issue_id x = ident then apply_update d x else x)
                           (ts_issues db)\<rparr>"
    by (auto simp: issue_update_def split: if_splits)
  have "find (\<lambda>i. issue_id i = ident) (ts_issues db') = Some new"
    unfolding db' new using Some
    by (simp add: find_map_update [of "apply_update d", OF apply_update_id])
  with Some new db' show ?thesis by simp
qed

lemma triage_Inr:
  assumes "triage_issue db t1 t2 ident req = (Inr new, db')"
  shows "issue_update db ident
           \<lparr>set_severity = req_severity req, set_updatedAt = t1, set_status = req_status req,
            set_resolvedAt =
              (case req_status req of
                 Some s \<Rightarrow> if s = RESOLVED \<or> s = CLOSED then Some t2 else None
               | None \<Rightarrow> None),
            set_assignedToId = req_assignedTo req\<rparr> = Inr (new, db')"
  using assms
  by (auto simp: triage_issue_def Let_def split: option.splits sum.splits if_splits prod.splits)


subsection \<open>C5: triage and \<^verbatim>\<open>resolvedAt\<close>\<close>

text \<open>
  C5. For a triage call on an existing issue that succeeds: when the supplied status
  is RESOLVED or CLOSED, the returned (and stored) issue has \<^verbatim>\<open>resolvedAt\<close> set to the
  time the handler read, so it is not null; when the supplied status is any other
  value, or no status is supplied, \<^verbatim>\<open>resolvedAt\<close> is what it was before the call, so a
  stale value is not cleared. The call succeeds whenever the issue exists and the
  assignee, if one is supplied, is a user.
\<close>

theorem triage_resolvedAt:
  "(find (\<lambda>i. issue_id i = ident) (ts_issues db) = Some old \<and>
    triage_issue db t_updated t_resolved ident req = (Inr new, db') \<longrightarrow>
      (req_status req = Some RESOLVED \<or> req_status req = Some CLOSED \<longrightarrow>
         resolvedAt new = Some t_resolved) \<and>
      (req_status req \<noteq> Some RESOLVED \<and> req_status req \<noteq> Some CLOSED \<longrightarrow>
         resolvedAt new = resolvedAt old) \<and>
      find (\<lambda>i. issue_id i = ident) (ts_issues db') = Some new) \<and>
   (find (\<lambda>i. issue_id i = ident) (ts_issues db) = Some old \<and>
    (case req_assignedTo req of
       None \<Rightarrow> True
     | Some a \<Rightarrow> find (\<lambda>u. user_id u = a) (ts_users db) \<noteq> None) \<longrightarrow>
      (\<exists>new db'. triage_issue db t_updated t_resolved ident req = (Inr new, db')))"
proof (rule conjI)
  show "find (\<lambda>i. issue_id i = ident) (ts_issues db) = Some old \<and>
    triage_issue db t_updated t_resolved ident req = (Inr new, db') \<longrightarrow>
      (req_status req = Some RESOLVED \<or> req_status req = Some CLOSED \<longrightarrow>
         resolvedAt new = Some t_resolved) \<and>
      (req_status req \<noteq> Some RESOLVED \<and> req_status req \<noteq> Some CLOSED \<longrightarrow>
         resolvedAt new = resolvedAt old) \<and>
      find (\<lambda>i. issue_id i = ident) (ts_issues db') = Some new"
  proof (intro impI, elim conjE)
    assume old: "find (\<lambda>i. issue_id i = ident) (ts_issues db) = Some old"
      and ok: "triage_issue db t_updated t_resolved ident req = (Inr new, db')"
    let ?d = "\<lparr>set_severity = req_severity req, set_updatedAt = t_updated,
              set_status = req_status req,
              set_resolvedAt =
                (case req_status req of
                   Some s \<Rightarrow> if s = RESOLVED \<or> s = CLOSED then Some t_resolved else None
                 | None \<Rightarrow> None),
              set_assignedToId = req_assignedTo req\<rparr>"
    from issue_update_Inr [OF triage_Inr [OF ok]] old
    have new: "new = apply_update ?d old"
      and stored: "find (\<lambda>i. issue_id i = ident) (ts_issues db') = Some new"
      by auto
    have a: "req_status req = Some RESOLVED \<or> req_status req = Some CLOSED \<longrightarrow>
           resolvedAt new = Some t_resolved"
      unfolding new by (auto simp: apply_update_def)
    have b: "req_status req \<noteq> Some RESOLVED \<and> req_status req \<noteq> Some CLOSED \<longrightarrow>
           resolvedAt new = resolvedAt old"
      unfolding new by (auto simp: apply_update_def split: option.splits)
    from a b stored
    show "(req_status req = Some RESOLVED \<or> req_status req = Some CLOSED \<longrightarrow>
           resolvedAt new = Some t_resolved) \<and>
        (req_status req \<noteq> Some RESOLVED \<and> req_status req \<noteq> Some CLOSED \<longrightarrow>
           resolvedAt new = resolvedAt old) \<and>
        find (\<lambda>i. issue_id i = ident) (ts_issues db') = Some new"
      by (intro conjI)
  qed
next
  show "find (\<lambda>i. issue_id i = ident) (ts_issues db) = Some old \<and>
    (case req_assignedTo req of
       None \<Rightarrow> True
     | Some a \<Rightarrow> find (\<lambda>u. user_id u = a) (ts_users db) \<noteq> None) \<longrightarrow>
      (\<exists>new db'. triage_issue db t_updated t_resolved ident req = (Inr new, db'))"
    by (auto simp: triage_issue_def issue_update_def Let_def split: option.splits)
qed

theorem triage_resolvedAt_witness:
  "(\<exists>new db'. triage_issue ts_db0 7000 7001 ''a''
        \<lparr>req_severity = HIGH, req_status = Some RESOLVED, req_assignedTo = None\<rparr> = (Inr new, db') \<and>
      resolvedAt new = Some 7001) \<and>
   (\<exists>new db'. triage_issue ts_db0 7000 7001 ''b''
        \<lparr>req_severity = LOW, req_status = Some IN_PROGRESS, req_assignedTo = Some ''u1''\<rparr> =
          (Inr new, db') \<and>
      resolvedAt new = Some 2500) \<and>
   (\<exists>new db'. triage_issue ts_db0 7000 7001 ''b''
        \<lparr>req_severity = LOW, req_status = None, req_assignedTo = None\<rparr> = (Inr new, db') \<and>
      resolvedAt new = Some 2500)"
proof -
  let ?r1 = "\<lparr>req_severity = HIGH, req_status = Some RESOLVED, req_assignedTo = None\<rparr>"
  let ?r2 = "\<lparr>req_severity = LOW, req_status = Some IN_PROGRESS, req_assignedTo = Some ''u1''\<rparr>"
  let ?r3 = "\<lparr>req_severity = LOW, req_status = None, req_assignedTo = None\<rparr>"
  have fa: "find (\<lambda>i. issue_id i = ''a'') (ts_issues ts_db0) = Some issue_a"
    and fb: "find (\<lambda>i. issue_id i = ''b'') (ts_issues ts_db0) = Some issue_b"
    by (simp_all add: ts_db0_def issue_a_def issue_b_def issue_c_def)
  have u1: "find (\<lambda>u. user_id u = ''u1'') (ts_users ts_db0) \<noteq> None"
    by (simp add: ts_db0_def alice_def)
  have stale: "resolvedAt issue_b = Some 2500"
    by (simp add: issue_b_def)
  have p1: "\<exists>new db'. triage_issue ts_db0 7000 7001 ''a'' ?r1 = (Inr new, db') \<and>
      resolvedAt new = Some 7001"
  proof -
    from triage_resolvedAt [THEN conjunct2, of "''a''" ts_db0 issue_a ?r1 7000 7001] fa
    obtain new db' where ok: "triage_issue ts_db0 7000 7001 ''a'' ?r1 = (Inr new, db')"
      by auto
    from triage_resolvedAt [THEN conjunct1, of "''a''" ts_db0 issue_a 7000 7001 ?r1 new db'] fa ok
    have "resolvedAt new = Some 7001" by simp
    with ok show ?thesis by blast
  qed
  have p2: "\<exists>new db'. triage_issue ts_db0 7000 7001 ''b'' ?r2 = (Inr new, db') \<and>
      resolvedAt new = Some 2500"
  proof -
    from triage_resolvedAt [THEN conjunct2, of "''b''" ts_db0 issue_b ?r2 7000 7001] fb u1
    obtain new db' where ok: "triage_issue ts_db0 7000 7001 ''b'' ?r2 = (Inr new, db')"
      by auto
    from triage_resolvedAt [THEN conjunct1, of "''b''" ts_db0 issue_b 7000 7001 ?r2 new db'] fb ok
    have "resolvedAt new = resolvedAt issue_b" by simp
    with ok stale show ?thesis by simp
  qed
  have p3: "\<exists>new db'. triage_issue ts_db0 7000 7001 ''b'' ?r3 = (Inr new, db') \<and>
      resolvedAt new = Some 2500"
  proof -
    from triage_resolvedAt [THEN conjunct2, of "''b''" ts_db0 issue_b ?r3 7000 7001] fb
    obtain new db' where ok: "triage_issue ts_db0 7000 7001 ''b'' ?r3 = (Inr new, db')"
      by auto
    from triage_resolvedAt [THEN conjunct1, of "''b''" ts_db0 issue_b 7000 7001 ?r3 new db'] fb ok
    have "resolvedAt new = resolvedAt issue_b" by simp
    with ok stale show ?thesis by simp
  qed
  show ?thesis
    by (rule conjI [OF p1 conjI [OF p2 p3]])
qed

subsection \<open>C6: triage with an assignee that does not exist\<close>

text \<open>
  C6. A triage call on an existing issue whose \<^verbatim>\<open>assignedTo\<close> names no user fails with
  400 \<^verbatim>\<open>Invalid reference\<close>, and the database after the call is the database before it:
  the issue's severity, status, assignee, \<^verbatim>\<open>resolvedAt\<close> and \<^verbatim>\<open>updatedAt\<close> are unchanged.
  The same holds for the whole route once the caller is authenticated and the id and
  the body pass validation.
\<close>

theorem triage_invalid_assignee:
  "(find (\<lambda>i. issue_id i = ident) (ts_issues db) = Some old \<and> req_assignedTo req = Some a \<and>
    find (\<lambda>u. user_id u = a) (ts_users db) = None \<longrightarrow>
      (\<exists>details. triage_issue db t_updated t_resolved ident req =
         (Inl (HttpError 400 ''Invalid reference'' details), db))) \<and>
   (authenticate verifyAccessToken (ts_users db) authHeader = Inr u \<and> is_uuid ident \<and>
    validateTriageIssue is_uuid body = Inr req \<and>
    find (\<lambda>i. issue_id i = ident) (ts_issues db) = Some old \<and> req_assignedTo req = Some a \<and>
    find (\<lambda>u. user_id u = a) (ts_users db) = None \<longrightarrow>
      (\<exists>details. triage_route verifyAccessToken is_uuid db t_updated t_resolved authHeader ident body =
         (Inl (HttpError 400 ''Invalid reference'' details), db)))"
proof -
  have handler: "\<exists>details. triage_issue db t_updated t_resolved ident req =
         (Inl (HttpError 400 ''Invalid reference'' details), db)"
    if "find (\<lambda>i. issue_id i = ident) (ts_issues db) = Some old" "req_assignedTo req = Some a"
      "find (\<lambda>u. user_id u = a) (ts_users db) = None"
    using that
    by (auto simp: triage_issue_def issue_update_def Let_def ApiError_def split: option.splits)
  have route: "triage_route verifyAccessToken is_uuid db t_updated t_resolved authHeader ident body =
      triage_issue db t_updated t_resolved ident req"
    if "authenticate verifyAccessToken (ts_users db) authHeader = Inr u" "is_uuid ident"
      "validateTriageIssue is_uuid body = Inr req"
    using that by (simp add: triage_route_def validateUuidParam_def)
  from handler route show ?thesis by simp
qed

theorem triage_invalid_assignee_witness:
  "(\<exists>details. triage_issue ts_db0 7000 7001 ''a''
       \<lparr>req_severity = CRITICAL, req_status = Some CLOSED, req_assignedTo = Some ''nobody''\<rparr> =
         (Inl (HttpError 400 ''Invalid reference'' details), ts_db0)) \<and>
   find (\<lambda>i. issue_id i = ''a'') (ts_issues ts_db0) = Some issue_a"
proof -
  let ?req = "\<lparr>req_severity = CRITICAL, req_status = Some CLOSED, req_assignedTo = Some ''nobody''\<rparr>"
  have fa: "find (\<lambda>i. issue_id i = ''a'') (ts_issues ts_db0) = Some issue_a"
    by (simp add: ts_db0_def issue_a_def issue_b_def issue_c_def)
  have asg: "req_assignedTo ?req = Some ''nobody''" by simp
  have nobody: "find (\<lambda>u. user_id u = ''nobody'') (ts_users ts_db0) = None"
    by (simp add: ts_db0_def alice_def bob_def)
  have "\<exists>details. triage_issue ts_db0 7000 7001 ''a'' ?req =
         (Inl (HttpError 400 ''Invalid reference'' details), ts_db0)"
    by (rule mp [OF triage_invalid_assignee [THEN conjunct1]
          conjI [OF fa conjI [OF asg nobody]]])
  then show ?thesis using fa by (rule conjI)
qed

subsection \<open>Helper lemmas on the routes\<close>

lemma auth_alice:
  "authenticate verify0 (ts_users ts_db1) (Some ''Bearer token-of-alice'') = Inr alice"
  by (simp add: authenticate_def extractBearerToken_def verify0_def ts_db1_def alice_def bob_def)

lemma triage_issue_status:
  "triage_issue db t1 t2 ident req = (Inl e, db') \<Longrightarrow> statusCode e = 400 \<or> statusCode e = 404"
  by (auto simp: triage_issue_def issue_update_def Let_def ApiError_def
      split: option.splits if_splits)

lemma validateTriageIssue_Inl:
  "validateTriageIssue is_uuid body = Inl e \<Longrightarrow> e = validation_failed"
  unfolding validateTriageIssue_def
  by (simp split: prod.splits option.splits)

subsection \<open>C4: reading one issue\<close>

text \<open>
  C4, as the code has it. For \<^verbatim>\<open>GET /issues/:id\<close> of \<^verbatim>\<open>routes/issues.ts\<close>, an
  authenticated caller with a valid UUID is answered with the issue (200) when it
  exists and with 404 when it does not, whatever the caller's role and whoever created
  the issue. The route fails with 401, 400 or 404 only: it never answers 403.
\<close>

theorem get_issue_responses:
  "(authenticate verifyAccessToken (ts_users db) authHeader = Inr u \<and> is_uuid ident \<longrightarrow>
     (\<forall>i. find (\<lambda>i. issue_id i = ident) (ts_issues db) = Some i \<longrightarrow>
        get_issue_route verifyAccessToken is_uuid db authHeader ident = Inr i) \<and>
     (find (\<lambda>i. issue_id i = ident) (ts_issues db) = None \<longrightarrow>
        (\<exists>details. get_issue_route verifyAccessToken is_uuid db authHeader ident =
           Inl (HttpError 404 ''Resource not found'' details)))) \<and>
   (\<forall>e. get_issue_route verifyAccessToken is_uuid db authHeader ident = Inl e \<longrightarrow>
      statusCode e = 401 \<or> statusCode e = 400 \<or> statusCode e = 404)"
  by (auto simp: get_issue_route_def get_issue_def validateUuidParam_def validation_failed_def
      authenticate_def ApiError_def split: sum.splits option.splits if_splits)

theorem get_issue_responses_witness:
  "get_issue_route verify0 is_uuid0 ts_db1 (Some ''Bearer token-of-alice'')
      ''660e8400-e29b-41d4-a716-446655440000'' = Inr issue_u \<and>
   (\<exists>details. get_issue_route verify0 is_uuid0 (ts_db1\<lparr>ts_issues := []\<rparr>)
      (Some ''Bearer token-of-alice'') ''660e8400-e29b-41d4-a716-446655440000'' =
        Inl (HttpError 404 ''Resource not found'' details))"
proof -
  have auth': "authenticate verify0 (ts_users (ts_db1\<lparr>ts_issues := []\<rparr>))
      (Some ''Bearer token-of-alice'') = Inr alice"
    using auth_alice by simp
  have uuid: "is_uuid0 ''660e8400-e29b-41d4-a716-446655440000''"
    by (simp add: is_uuid0_def)
  have there: "find (\<lambda>i. issue_id i = ''660e8400-e29b-41d4-a716-446655440000'')
      (ts_issues ts_db1) = Some issue_u"
    by (simp add: ts_db1_def issue_u_def)
  have gone: "find (\<lambda>i. issue_id i = ''660e8400-e29b-41d4-a716-446655440000'')
      (ts_issues (ts_db1\<lparr>ts_issues := []\<rparr>)) = None"
    by simp
  from mp [OF get_issue_responses [THEN conjunct1, of verify0 ts_db1
        "Some ''Bearer token-of-alice''" alice is_uuid0 "''660e8400-e29b-41d4-a716-446655440000''"]
      conjI [OF auth_alice uuid]]
  have p1: "get_issue_route verify0 is_uuid0 ts_db1 (Some ''Bearer token-of-alice'')
      ''660e8400-e29b-41d4-a716-446655440000'' = Inr issue_u"
    using there by blast
  from mp [OF get_issue_responses [THEN conjunct1, of verify0 "ts_db1\<lparr>ts_issues := []\<rparr>"
        "Some ''Bearer token-of-alice''" alice is_uuid0 "''660e8400-e29b-41d4-a716-446655440000''"]
      conjI [OF auth' uuid]]
  have p2: "\<exists>details. get_issue_route verify0 is_uuid0 (ts_db1\<lparr>ts_issues := []\<rparr>)
      (Some ''Bearer token-of-alice'') ''660e8400-e29b-41d4-a716-446655440000'' =
        Inl (HttpError 404 ''Resource not found'' details)"
    using gone by blast
  show ?thesis by (rule conjI [OF p1 p2])
qed

text \<open>
  C4 as stated has a customer who asks for another user's issue answered with 403. A
  caller whose role is \<^verbatim>\<open>CUSTOMER\<close> asks for an issue that another user created and is
  answered with the issue.
\<close>

theorem get_issue_responses_counterexample:
  "get_issue_route verify0 is_uuid0 ts_db1 (Some ''Bearer token-of-alice'')
      ''660e8400-e29b-41d4-a716-446655440000'' = Inr issue_u \<and>
   authenticate verify0 (ts_users ts_db1) (Some ''Bearer token-of-alice'') = Inr alice \<and>
   role alice = ''CUSTOMER'' \<and> createdById issue_u \<noteq> user_id alice"
proof -
  have "get_issue ts_db1 ''660e8400-e29b-41d4-a716-446655440000'' = Inr issue_u"
    by (simp add: get_issue_def ts_db1_def issue_u_def)
  then have "get_issue_route verify0 is_uuid0 ts_db1 (Some ''Bearer token-of-alice'')
      ''660e8400-e29b-41d4-a716-446655440000'' = Inr issue_u"
    by (simp add: get_issue_route_def auth_alice validateUuidParam_def is_uuid0_def)
  with auth_alice show ?thesis by (simp add: alice_def issue_u_def)
qed

subsection \<open>C3: the role gate\<close>

lemma requireSupport_customer:
  "role u \<noteq> ''SUPPORT'' \<Longrightarrow>
     requireSupport (Some u) = Inl (HttpError 403 ''Forbidden'' ''Insufficient permissions'')"
  by (simp add: requireSupport_def requireRole_def ForbiddenError_def)

lemma requireSupport_support:
  "role u = ''SUPPORT'' \<Longrightarrow> requireSupport (Some u) = Inr ()"
  by (simp add: requireSupport_def requireRole_def)

lemma getIssuesSchema_Inl:
  "getIssuesSchema is_datetime q = Inl e \<Longrightarrow> statusCode e = 400"
  by (auto simp: getIssuesSchema_def ValidationError_def split: if_splits)

lemma list_issues_js_Inl:
  "list_issues_js parseDate db f = Inl e \<Longrightarrow> statusCode e = 500"
  by (auto simp: list_issues_js_def InternalError_def Let_def
      split: prod.splits option.splits if_splits)

lemma update_status_Inl:
  "update_status db now ident st = (Inl e, db') \<Longrightarrow> statusCode e = 404"
  by (auto simp: update_status_def NotFoundError_def split: option.splits)

lemma issueIdSchema_Inl:
  "issueIdSchema ident = Inl e \<Longrightarrow> statusCode e = 400"
  by (auto simp: issueIdSchema_def ValidationError_def split: if_splits)

lemma statusUpdateSchema_Inl:
  "statusUpdateSchema body = Inl e \<Longrightarrow> statusCode e = 400"
  by (auto simp: statusUpdateSchema_def ValidationError_def
      split: option.splits json.splits if_splits)

lemma list_route_support:
  assumes "authenticate_js verifyToken (js_users db) authHeader = Inr u" "role u = ''SUPPORT''"
    and "list_issues_js_route verifyToken is_datetime parseDate db authHeader q = Inl e"
  shows "statusCode e = 400 \<or> statusCode e = 500"
  using assms
  by (auto simp: list_issues_js_route_def requireSupport_support
      dest: getIssuesSchema_Inl list_issues_js_Inl split: sum.splits)

lemma update_route_support:
  assumes "authenticate_js verifyToken (js_users db) authHeader = Inr u" "role u = ''SUPPORT''"
    and "update_status_route verifyToken db now authHeader ident body = (Inl e, db')"
  shows "statusCode e = 400 \<or> statusCode e = 404"
  using assms
  by (auto simp: update_status_route_def requireSupport_support
      dest: issueIdSchema_Inl statusUpdateSchema_Inl update_status_Inl split: sum.splits)

lemma authenticate_js_Inl:
  "authenticate_js verifyToken users authHeader = Inl e \<Longrightarrow> statusCode e = 401"
  by (auto simp: authenticate_js_def UnauthorizedError_def split: option.splits if_splits)

lemma auth_js_alice:
  "authenticate_js verifyToken0 (js_users js_db0) (Some ''Bearer token-of-alice'') = Inr alice"
  by (simp add: authenticate_js_def verifyToken0_def js_db0_def alice_def bob_def)

lemma auth_js_bob:
  "authenticate_js verifyToken0 (js_users js_db0) (Some ''Bearer token-of-bob'') = Inr bob"
  by (simp add: authenticate_js_def verifyToken0_def js_db0_def alice_def bob_def)

text \<open>
  C3, as the code has it. The support-only operations are the routes of the JavaScript
  back end that carry \<^verbatim>\<open>requireSupport\<close>: \<^verbatim>\<open>GET /issues\<close> and \<^verbatim>\<open>PATCH /issues/:id/status\<close>.
  A caller whom \<^verbatim>\<open>authenticate\<close> accepts and whose role is not \<^verbatim>\<open>SUPPORT\<close> is answered by
  both with 403 \<^verbatim>\<open>Forbidden\<close>, \<^verbatim>\<open>Insufficient permissions\<close>, and nothing is written. A
  caller whom \<^verbatim>\<open>authenticate\<close> accepts and whose role is \<^verbatim>\<open>SUPPORT\<close> is never answered with
  403 or 401: the listing fails only with 400 or 500, the update only with 400 or 404.
  A caller whom \<^verbatim>\<open>authenticate\<close> rejects is answered with its 401 by both. So the 403 is
  the answer of the role check and the 401 that of authentication.

  The role checks by themselves: for a role outside the allow-list, \<^verbatim>\<open>authorize(roles)\<close>
  of the TypeScript back end answers 403 \<^verbatim>\<open>Insufficient permissions\<close> with the details
  \<^verbatim>\<open>Required roles: \<close> and the roles joined by a comma and a space, and \<^verbatim>\<open>requireRole\<close> of the
  JavaScript back end answers 403 \<^verbatim>\<open>Forbidden\<close>; neither answers a request that carries a
  user with anything but 403.

  \<^verbatim>\<open>PATCH /issues/:id/triage\<close> carries no role check: for an authenticated caller it
  fails only with 400 or 404.
\<close>

theorem role_gate:
  "(authenticate_js verifyToken (js_users jdb) authHeader = Inr u \<and> role u \<noteq> ''SUPPORT'' \<longrightarrow>
      list_issues_js_route verifyToken is_datetime parseDate jdb authHeader q =
        Inl (HttpError 403 ''Forbidden'' ''Insufficient permissions'') \<and>
      update_status_route verifyToken jdb now authHeader ident body =
        (Inl (HttpError 403 ''Forbidden'' ''Insufficient permissions''), jdb)) \<and>
   (authenticate_js verifyToken (js_users jdb) authHeader = Inr u \<and> role u = ''SUPPORT'' \<longrightarrow>
      (\<forall>e. list_issues_js_route verifyToken is_datetime parseDate jdb authHeader q = Inl e \<longrightarrow>
         statusCode e = 400 \<or> statusCode e = 500) \<and>
      (\<forall>e db'. update_status_route verifyToken jdb now authHeader ident body = (Inl e, db') \<longrightarrow>
         statusCode e = 400 \<or> statusCode e = 404)) \<and>
   (\<forall>e. authenticate_js verifyToken (js_users jdb) authHeader = Inl e \<longrightarrow>
      statusCode e = 401 \<and>
      list_issues_js_route verifyToken is_datetime parseDate jdb authHeader q = Inl e \<and>
      update_status_route verifyToken jdb now authHeader ident body = (Inl e, jdb)) \<and>
   (role u \<notin> set roles \<longrightarrow>
      authorize roles (Some u) =
        Inl (HttpError 403 ''Insufficient permissions'' (''Required roles: '' @ join '', '' roles)) \<and>
      requireRole roles (Some u) = Inl (HttpError 403 ''Forbidden'' ''Insufficient permissions'')) \<and>
   (\<forall>e. authorize roles (Some u) = Inl e \<longrightarrow> statusCode e = 403) \<and>
   (\<forall>e. requireRole roles (Some u) = Inl e \<longrightarrow> statusCode e = 403) \<and>
   (authenticate verifyAccessToken (ts_users db) tsHeader = Inr caller \<longrightarrow>
      (\<forall>e db'. triage_route verifyAccessToken is_uuid db t1 t2 tsHeader tsIdent tsBody =
           (Inl e, db') \<longrightarrow>
         statusCode e = 400 \<or> statusCode e = 404))"
proof -
  have c1: "authenticate_js verifyToken (js_users jdb) authHeader = Inr u \<and>
      role u \<noteq> ''SUPPORT'' \<longrightarrow>
      list_issues_js_route verifyToken is_datetime parseDate jdb authHeader q =
        Inl (HttpError 403 ''Forbidden'' ''Insufficient permissions'') \<and>
      update_status_route verifyToken jdb now authHeader ident body =
        (Inl (HttpError 403 ''Forbidden'' ''Insufficient permissions''), jdb)"
    by (simp add: list_issues_js_route_def update_status_route_def requireSupport_customer)
  have c2: "authenticate_js verifyToken (js_users jdb) authHeader = Inr u \<and>
      role u = ''SUPPORT'' \<longrightarrow>
      (\<forall>e. list_issues_js_route verifyToken is_datetime parseDate jdb authHeader q = Inl e \<longrightarrow>
         statusCode e = 400 \<or> statusCode e = 500) \<and>
      (\<forall>e db'. update_status_route verifyToken jdb now authHeader ident body = (Inl e, db') \<longrightarrow>
         statusCode e = 400 \<or> statusCode e = 404)"
    using list_route_support [of verifyToken jdb authHeader u is_datetime parseDate q]
      update_route_support [of verifyToken jdb authHeader u now ident body]
    by blast
  have c3: "\<forall>e. authenticate_js verifyToken (js_users jdb) authHeader = Inl e \<longrightarrow>
      statusCode e = 401 \<and>
      list_issues_js_route verifyToken is_datetime parseDate jdb authHeader q = Inl e \<and>
      update_status_route verifyToken jdb now authHeader ident body = (Inl e, jdb)"
    by (simp add: list_issues_js_route_def update_status_route_def authenticate_js_Inl)
  have c4: "role u \<notin> set roles \<longrightarrow>
      authorize roles (Some u) =
        Inl (HttpError 403 ''Insufficient permissions'' (''Required roles: '' @ join '', '' roles)) \<and>
      requireRole roles (Some u) = Inl (HttpError 403 ''Forbidden'' ''Insufficient permissions'')"
    by (simp add: authorize_def requireRole_def ForbiddenError_def)
  have c5: "\<forall>e. authorize roles (Some u) = Inl e \<longrightarrow> statusCode e = 403"
    by (auto simp: authorize_def split: if_splits)
  have c6: "\<forall>e. requireRole roles (Some u) = Inl e \<longrightarrow> statusCode e = 403"
    by (auto simp: requireRole_def ForbiddenError_def split: if_splits)
  have c7: "authenticate verifyAccessToken (ts_users db) tsHeader = Inr caller \<longrightarrow>
      (\<forall>e db'. triage_route verifyAccessToken is_uuid db t1 t2 tsHeader tsIdent tsBody =
           (Inl e, db') \<longrightarrow>
         statusCode e = 400 \<or> statusCode e = 404)"
    by (auto simp: triage_route_def validateUuidParam_def validation_failed_def
        dest: triage_issue_status validateTriageIssue_Inl split: sum.splits if_splits)
  show ?thesis
    by (rule conjI [OF c1 conjI [OF c2 conjI [OF c3 conjI [OF c4 conjI [OF c5 conjI [OF c6 c7]]]]]])
qed

theorem role_gate_witness:
  "list_issues_js_route verifyToken0 (\<lambda>s. True) (\<lambda>s. None) js_db0
       (Some ''Bearer token-of-alice'') no_js_query =
     Inl (HttpError 403 ''Forbidden'' ''Insufficient permissions'') \<and>
   update_status_route verifyToken0 js_db0 50 (Some ''Bearer token-of-alice'') ''j1''
       [''status'' \<mapsto> JStr ''RESOLVED''] =
     (Inl (HttpError 403 ''Forbidden'' ''Insufficient permissions''), js_db0) \<and>
   (\<exists>e. update_status_route verifyToken0 js_db0 50 (Some ''Bearer token-of-bob'') ''j9''
       [''status'' \<mapsto> JStr ''RESOLVED''] = (Inl e, js_db0) \<and> statusCode e = 404) \<and>
   (\<exists>e. list_issues_js_route verifyToken0 (\<lambda>s. True) (\<lambda>s. None) js_db0 None no_js_query = Inl e \<and>
      statusCode e = 401) \<and>
   authorize [''SUPPORT'', ''ADMIN''] (Some alice) =
     Inl (HttpError 403 ''Insufficient permissions'' ''Required roles: SUPPORT, ADMIN'') \<and>
   requireRole [''SUPPORT''] (Some alice) =
     Inl (HttpError 403 ''Forbidden'' ''Insufficient permissions'')"
proof -
  let ?body = "[''status'' \<mapsto> JStr ''RESOLVED'']"
  have customer: "role alice \<noteq> ''SUPPORT''" by (simp add: alice_def)
  have support: "role bob = ''SUPPORT''" by (simp add: bob_def)
  have outside2: "role alice \<notin> set [''SUPPORT'', ''ADMIN'']" by (simp add: alice_def)
  have outside1: "role alice \<notin> set [''SUPPORT'']" by (simp add: alice_def)
  have anonymous: "authenticate_js verifyToken0 (js_users js_db0) None =
      Inl (HttpError 401 ''Unauthorized'' ''No token provided'')"
    by (simp add: authenticate_js_def UnauthorizedError_def)
  have handler: "update_status js_db0 50 ''j9'' ''RESOLVED'' =
      (Inl (HttpError 404 ''NotFound'' ''Issue not found''), js_db0)"
    by (simp add: update_status_def NotFoundError_def js_db0_def)
  have "update_status_route verifyToken0 js_db0 50 (Some ''Bearer token-of-bob'') ''j9'' ?body =
      update_status js_db0 50 ''j9'' ''RESOLVED''"
    by (simp add: update_status_route_def auth_js_bob requireSupport_support [OF support]
        issueIdSchema_def statusUpdateSchema_def)
  with handler
  have missing: "update_status_route verifyToken0 js_db0 50 (Some ''Bearer token-of-bob'') ''j9''
      ?body = (Inl (HttpError 404 ''NotFound'' ''Issue not found''), js_db0)"
    by simp
  note gate = role_gate [of verifyToken0 js_db0 "Some ''Bearer token-of-alice''" alice
      "\<lambda>s. True" "\<lambda>s. None" no_js_query 50 "''j1''" ?body]
  note served = role_gate [of verifyToken0 js_db0 "Some ''Bearer token-of-bob''" bob
      "\<lambda>s. True" "\<lambda>s. None" no_js_query 50 "''j9''" ?body]
  note unauth = role_gate [of verifyToken0 js_db0 None _ "\<lambda>s. True" "\<lambda>s. None" no_js_query]
  note ts2 = role_gate [of _ _ _ alice _ _ _ _ _ _ "[''SUPPORT'', ''ADMIN'']"]
  note ts1 = role_gate [of _ _ _ alice _ _ _ _ _ _ "[''SUPPORT'']"]
  note p12 = mp [OF gate [THEN conjunct1] conjI [OF auth_js_alice customer]]
  from mp [OF served [THEN conjunct2, THEN conjunct1] conjI [OF auth_js_bob support]] missing
  have p3: "\<exists>e. update_status_route verifyToken0 js_db0 50 (Some ''Bearer token-of-bob'') ''j9''
       ?body = (Inl e, js_db0) \<and> statusCode e = 404"
    by simp
  from unauth [THEN conjunct2, THEN conjunct2, THEN conjunct1] anonymous
  have p4: "\<exists>e. list_issues_js_route verifyToken0 (\<lambda>s. True) (\<lambda>s. None) js_db0 None no_js_query =
      Inl e \<and> statusCode e = 401"
    by blast
  from mp [OF ts2 [THEN conjunct2, THEN conjunct2, THEN conjunct2, THEN conjunct1] outside2]
  have p5: "authorize [''SUPPORT'', ''ADMIN''] (Some alice) =
     Inl (HttpError 403 ''Insufficient permissions'' ''Required roles: SUPPORT, ADMIN'')"
    by simp
  from mp [OF ts1 [THEN conjunct2, THEN conjunct2, THEN conjunct2, THEN conjunct1] outside1]
  have p6: "requireRole [''SUPPORT''] (Some alice) =
     Inl (HttpError 403 ''Forbidden'' ''Insufficient permissions'')"
    by simp
  show ?thesis
    by (rule conjI [OF p12 [THEN conjunct1] conjI [OF p12 [THEN conjunct2] conjI [OF p3
          conjI [OF p4 conjI [OF p5 p6]]]]])
qed

text \<open>
  C3 as stated names \<^verbatim>\<open>PATCH /issues/:id/triage\<close> as an operation that answers a customer
  with 403. A caller whose role is \<^verbatim>\<open>CUSTOMER\<close>, authenticated, triages an issue and is
  answered with the updated issue.
\<close>

theorem role_gate_counterexample:
  "fst (triage_route verify0 is_uuid0 ts_db1 7000 7001 (Some ''Bearer token-of-alice'')
      ''660e8400-e29b-41d4-a716-446655440000'' [''severity'' \<mapsto> JStr ''HIGH'']) =
     Inr (issue_u\<lparr>severity := HIGH, updatedAt := 7000\<rparr>) \<and>
   authenticate verify0 (ts_users ts_db1) (Some ''Bearer token-of-alice'') = Inr alice \<and>
   role alice = ''CUSTOMER''"
proof -
  have body: "validateTriageIssue is_uuid0 [''severity'' \<mapsto> JStr ''HIGH''] =
      Inr \<lparr>req_severity = HIGH, req_status = None, req_assignedTo = None\<rparr>"
    by (simp add: validateTriageIssue_def parse_Severity_def)
  have handler: "fst (triage_issue ts_db1 7000 7001 ''660e8400-e29b-41d4-a716-446655440000''
      \<lparr>req_severity = HIGH, req_status = None, req_assignedTo = None\<rparr>) =
     Inr (issue_u\<lparr>severity := HIGH, updatedAt := 7000\<rparr>)"
    by (simp add: triage_issue_def issue_update_def apply_update_def ts_db1_def issue_u_def)
  have "triage_route verify0 is_uuid0 ts_db1 7000 7001 (Some ''Bearer token-of-alice'')
      ''660e8400-e29b-41d4-a716-446655440000'' [''severity'' \<mapsto> JStr ''HIGH''] =
    triage_issue ts_db1 7000 7001 ''660e8400-e29b-41d4-a716-446655440000''
      \<lparr>req_severity = HIGH, req_status = None, req_assignedTo = None\<rparr>"
    by (simp add: triage_route_def auth_alice body validateUuidParam_def is_uuid0_def)
  with handler auth_alice show ?thesis by (simp add: alice_def)
qed


subsection \<open>C9: the defaults of a created issue\<close>

lemma find_snoc:
  "find P (xs @ [r]) =
     (case find P xs of Some x \<Rightarrow> Some x | None \<Rightarrow> if P r then Some r else None)"
  by (induction xs) auto

lemma authenticate_Inr:
  assumes "authenticate verifyAccessToken users authHeader = Inr u"
  shows "find (\<lambda>x. user_id x = user_id u) users = Some u"
proof -
  from assms obtain uid where f: "find (\<lambda>x. user_id x = uid) users = Some u"
    by (auto simp: authenticate_def split: option.splits if_splits sum.splits)
  from find_SomeD [OF f] have "user_id u = uid" by simp
  with f show ?thesis by simp
qed

lemma create_issue_Inr:
  assumes "create_issue toLowerCase db newId now u req = (Inr i, db')"
  shows "i = \<lparr>issue_id = newId, trackingNumber = req_trackingNumber req,
              issue_type = req_type req, severity = MEDIUM, status = OPEN,
              title = req_title req, description = req_description req,
              customerEmail = toLowerCase (req_customerEmail req),
              customerPhone = req_customerPhone req, assignedToId = None,
              createdById = user_id u, createdAt = now, updatedAt = now,
              resolvedAt = None\<rparr> \<and>
     find (\<lambda>x. issue_id x = newId) (ts_issues db) = None \<and>
     db' = db\<lparr>ts_issues := ts_issues db @ [i]\<rparr>"
  using assms by (auto simp: create_issue_def Let_def split: if_splits)

lemma create_issue_total:
  assumes "find (\<lambda>x. user_id x = user_id u) (ts_users db) = Some u"
    and "find (\<lambda>x. issue_id x = newId) (ts_issues db) = None"
  shows "\<exists>i db'. create_issue toLowerCase db newId now u req = (Inr i, db')"
  using assms by (simp add: create_issue_def Let_def)

lemma validateCreateIssue_strips:
  "validateCreateIssue is_email (body(''severity'' := x, ''status'' := y)) =
   validateCreateIssue is_email body"
  by (simp add: validateCreateIssue_def)

text \<open>
  C9. Every \<^verbatim>\<open>POST /issues\<close> that succeeds creates a row and answers with it: the row has
  the id and the time stamps that the database supplies, the fields of the validated
  body (the e-mail address in lower case) and the caller as creator, with severity
  MEDIUM, status OPEN, no \<^verbatim>\<open>resolvedAt\<close> and no assignee; no row had that id before, and
  the table afterwards is the table before with this row added. An authenticated
  caller with a body that passes validation, and an id that is not taken, is answered
  with a success. Whatever the body holds under \<^verbatim>\<open>severity\<close> and \<^verbatim>\<open>status\<close>, or whether it
  holds them at all, makes no difference to the answer or to the database: validation
  drops both keys.
\<close>

theorem create_issue_defaults:
  "(create_issue_route verifyAccessToken is_email toLowerCase db newId now authHeader body =
      (Inr i, db') \<longrightarrow>
      (\<exists>u req. authenticate verifyAccessToken (ts_users db) authHeader = Inr u \<and>
         validateCreateIssue is_email body = Inr req \<and>
         i = \<lparr>issue_id = newId, trackingNumber = req_trackingNumber req,
              issue_type = req_type req, severity = MEDIUM, status = OPEN,
              title = req_title req, description = req_description req,
              customerEmail = toLowerCase (req_customerEmail req),
              customerPhone = req_customerPhone req, assignedToId = None,
              createdById = user_id u, createdAt = now, updatedAt = now,
              resolvedAt = None\<rparr>) \<and>
      severity i = MEDIUM \<and> status i = OPEN \<and> resolvedAt i = None \<and> assignedToId i = None \<and>
      issue_id i = newId \<and>
      find (\<lambda>x. issue_id x = newId) (ts_issues db) = None \<and>
      db' = db\<lparr>ts_issues := ts_issues db @ [i]\<rparr> \<and>
      find (\<lambda>x. issue_id x = newId) (ts_issues db') = Some i) \<and>
   (authenticate verifyAccessToken (ts_users db) authHeader = Inr u \<and>
    validateCreateIssue is_email body = Inr req \<and>
    find (\<lambda>x. issue_id x = newId) (ts_issues db) = None \<longrightarrow>
      (\<exists>i db'. create_issue_route verifyAccessToken is_email toLowerCase db newId now authHeader
          body = (Inr i, db'))) \<and>
   create_issue_route verifyAccessToken is_email toLowerCase db newId now authHeader
       (body(''severity'' := x, ''status'' := y)) =
     create_issue_route verifyAccessToken is_email toLowerCase db newId now authHeader body"
proof -
  have created: "create_issue_route verifyAccessToken is_email toLowerCase db newId now authHeader
      body = (Inr i, db') \<longrightarrow>
      (\<exists>u req. authenticate verifyAccessToken (ts_users db) authHeader = Inr u \<and>
         validateCreateIssue is_email body = Inr req \<and>
         i = \<lparr>issue_id = newId, trackingNumber = req_trackingNumber req,
              issue_type = req_type req, severity = MEDIUM, status = OPEN,
              title = req_title req, description = req_description req,
              customerEmail = toLowerCase (req_customerEmail req),
              customerPhone = req_customerPhone req, assignedToId = None,
              createdById = user_id u, createdAt = now, updatedAt = now,
              resolvedAt = None\<rparr>) \<and>
      severity i = MEDIUM \<and> status i = OPEN \<and> resolvedAt i = None \<and> assignedToId i = None \<and>
      issue_id i = newId \<and>
      find (\<lambda>x. issue_id x = newId) (ts_issues db) = None \<and>
      db' = db\<lparr>ts_issues := ts_issues db @ [i]\<rparr> \<and>
      find (\<lambda>x. issue_id x = newId) (ts_issues db') = Some i"
  proof
    assume "create_issue_route verifyAccessToken is_email toLowerCase db newId now authHeader body =
      (Inr i, db')"
    then obtain u req where u: "authenticate verifyAccessToken (ts_users db) authHeader = Inr u"
      and req: "validateCreateIssue is_email body = Inr req"
      and call: "create_issue toLowerCase db newId now u req = (Inr i, db')"
      by (auto simp: create_issue_route_def split: sum.splits)
    from create_issue_Inr [OF call]
    have i: "i = \<lparr>issue_id = newId, trackingNumber = req_trackingNumber req,
              issue_type = req_type req, severity = MEDIUM, status = OPEN,
              title = req_title req, description = req_description req,
              customerEmail = toLowerCase (req_customerEmail req),
              customerPhone = req_customerPhone req, assignedToId = None,
              createdById = user_id u, createdAt = now, updatedAt = now,
              resolvedAt = None\<rparr>"
      and fresh: "find (\<lambda>x. issue_id x = newId) (ts_issues db) = None"
      and db': "db' = db\<lparr>ts_issues := ts_issues db @ [i]\<rparr>"
      by simp_all
    from i have fields: "severity i = MEDIUM" "status i = OPEN" "resolvedAt i = None"
      "assignedToId i = None" "issue_id i = newId"
      by simp_all
    from fresh db' fields(5) have stored: "find (\<lambda>x. issue_id x = newId) (ts_issues db') = Some i"
      by (simp add: find_snoc)
    from u req i have "\<exists>u req. authenticate verifyAccessToken (ts_users db) authHeader = Inr u \<and>
         validateCreateIssue is_email body = Inr req \<and>
         i = \<lparr>issue_id = newId, trackingNumber = req_trackingNumber req,
              issue_type = req_type req, severity = MEDIUM, status = OPEN,
              title = req_title req, description = req_description req,
              customerEmail = toLowerCase (req_customerEmail req),
              customerPhone = req_customerPhone req, assignedToId = None,
              createdById = user_id u, createdAt = now, updatedAt = now,
              resolvedAt = None\<rparr>"
      by blast
    with fields fresh db' stored
    show "(\<exists>u req. authenticate verifyAccessToken (ts_users db) authHeader = Inr u \<and>
         validateCreateIssue is_email body = Inr req \<and>
         i = \<lparr>issue_id = newId, trackingNumber = req_trackingNumber req,
              issue_type = req_type req, severity = MEDIUM, status = OPEN,
              title = req_title req, description = req_description req,
              customerEmail = toLowerCase (req_customerEmail req),
              customerPhone = req_customerPhone req, assignedToId = None,
              createdById = user_id u, createdAt = now, updatedAt = now,
              resolvedAt = None\<rparr>) \<and>
      severity i = MEDIUM \<and> status i = OPEN \<and> resolvedAt i = None \<and> assignedToId i = None \<and>
      issue_id i = newId \<and>
      find (\<lambda>x. issue_id x = newId) (ts_issues db) = None \<and>
      db' = db\<lparr>ts_issues := ts_issues db @ [i]\<rparr> \<and>
      find (\<lambda>x. issue_id x = newId) (ts_issues db') = Some i"
      by (intro conjI)
  qed
  have total: "authenticate verifyAccessToken (ts_users db) authHeader = Inr u \<and>
    validateCreateIssue is_email body = Inr req \<and>
    find (\<lambda>x. issue_id x = newId) (ts_issues db) = None \<longrightarrow>
      (\<exists>i db'. create_issue_route verifyAccessToken is_email toLowerCase db newId now authHeader
          body = (Inr i, db'))"
  proof (intro impI, elim conjE)
    assume u: "authenticate verifyAccessToken (ts_users db) authHeader = Inr u"
      and req: "validateCreateIssue is_email body = Inr req"
      and fresh: "find (\<lambda>x. issue_id x = newId) (ts_issues db) = None"
    from create_issue_total [OF authenticate_Inr [OF u] fresh]
    have "\<exists>i db'. create_issue toLowerCase db newId now u req = (Inr i, db')" .
    with u req show "\<exists>i db'. create_issue_route verifyAccessToken is_email toLowerCase db newId
        now authHeader body = (Inr i, db')"
      by (simp add: create_issue_route_def)
  qed
  have strips: "create_issue_route verifyAccessToken is_email toLowerCase db newId now authHeader
       (body(''severity'' := x, ''status'' := y)) =
     create_issue_route verifyAccessToken is_email toLowerCase db newId now authHeader body"
    by (simp only: create_issue_route_def validateCreateIssue_strips)
  show ?thesis
    by (rule conjI [OF created conjI [OF total strips]])
qed

theorem create_issue_defaults_witness:
  "create_issue_route verify0 is_email0 toLowerCase0 ts_db1 ''n1'' 8000
       (Some ''Bearer token-of-alice'') create_body0 =
     (Inr \<lparr>issue_id = ''n1'', trackingNumber = ''TRK123456789'', issue_type = PACKAGE_DAMAGED,
           severity = MEDIUM, status = OPEN, title = ''Package arrived damaged'',
           description = ''Customer reports visible damage.'',
           customerEmail = ''customer@example.com'', customerPhone = None,
           assignedToId = None, createdById = ''u1'', createdAt = 8000, updatedAt = 8000,
           resolvedAt = None\<rparr>,
      ts_db1\<lparr>ts_issues := ts_issues ts_db1 @
        [\<lparr>issue_id = ''n1'', trackingNumber = ''TRK123456789'', issue_type = PACKAGE_DAMAGED,
           severity = MEDIUM, status = OPEN, title = ''Package arrived damaged'',
           description = ''Customer reports visible damage.'',
           customerEmail = ''customer@example.com'', customerPhone = None,
           assignedToId = None, createdById = ''u1'', createdAt = 8000, updatedAt = 8000,
           resolvedAt = None\<rparr>]\<rparr>) \<and>
   create_body0 ''severity'' = Some (JStr ''CRITICAL'') \<and>
   create_body0 ''status'' = Some (JStr ''CLOSED'') \<and>
   create_issue_route verify0 is_email0 toLowerCase0 ts_db1 ''n1'' 8000
       (Some ''Bearer token-of-alice'') (create_body0(''severity'' := None, ''status'' := None)) =
     create_issue_route verify0 is_email0 toLowerCase0 ts_db1 ''n1'' 8000
       (Some ''Bearer token-of-alice'') create_body0"
proof -
  let ?req = "\<lparr>req_trackingNumber = ''TRK123456789'', req_type = PACKAGE_DAMAGED,
           req_title = ''Package arrived damaged'',
           req_description = ''Customer reports visible damage.'',
           req_customerEmail = ''Customer@Example.com'', req_customerPhone = None\<rparr>"
  have v: "validateCreateIssue is_email0 create_body0 = Inr ?req"
    by (simp add: validateCreateIssue_def create_body0_def string_field_def parse_IssueType_def
        is_email0_def)
  have fresh: "find (\<lambda>x. issue_id x = ''n1'') (ts_issues ts_db1) = None"
    by (simp add: ts_db1_def issue_u_def)
  note fact = create_issue_defaults [of verify0 is_email0 toLowerCase0 ts_db1 "''n1''" 8000
      "Some ''Bearer token-of-alice''" create_body0 _ _ alice ?req None None]
  from mp [OF fact [THEN conjunct2, THEN conjunct1] conjI [OF auth_alice conjI [OF v fresh]]]
  obtain i db' where call: "create_issue_route verify0 is_email0 toLowerCase0 ts_db1 ''n1'' 8000
       (Some ''Bearer token-of-alice'') create_body0 = (Inr i, db')"
    by (elim exE)
  note fact' = create_issue_defaults [of verify0 is_email0 toLowerCase0 ts_db1 "''n1''" 8000
      "Some ''Bearer token-of-alice''" create_body0 i db']
  note made = mp [OF fact' [THEN conjunct1] call]
  from made [THEN conjunct1] auth_alice v
  have i: "i = \<lparr>issue_id = ''n1'', trackingNumber = ''TRK123456789'', issue_type = PACKAGE_DAMAGED,
           severity = MEDIUM, status = OPEN, title = ''Package arrived damaged'',
           description = ''Customer reports visible damage.'',
           customerEmail = ''customer@example.com'', customerPhone = None,
           assignedToId = None, createdById = ''u1'', createdAt = 8000, updatedAt = 8000,
           resolvedAt = None\<rparr>"
    by (simp add: toLowerCase0_def alice_def)
  from made have db': "db' = ts_db1\<lparr>ts_issues := ts_issues ts_db1 @ [i]\<rparr>"
    by simp
  have p1: "create_issue_route verify0 is_email0 toLowerCase0 ts_db1 ''n1'' 8000
       (Some ''Bearer token-of-alice'') create_body0 =
     (Inr \<lparr>issue_id = ''n1'', trackingNumber = ''TRK123456789'', issue_type = PACKAGE_DAMAGED,
           severity = MEDIUM, status = OPEN, title = ''Package arrived damaged'',
           description = ''Customer reports visible damage.'',
           customerEmail = ''customer@example.com'', customerPhone = None,
           assignedToId = None, createdById = ''u1'', createdAt = 8000, updatedAt = 8000,
           resolvedAt = None\<rparr>,
      ts_db1\<lparr>ts_issues := ts_issues ts_db1 @
        [\<lparr>issue_id = ''n1'', trackingNumber = ''TRK123456789'', issue_type = PACKAGE_DAMAGED,
           severity = MEDIUM, status = OPEN, title = ''Package arrived damaged'',
           description = ''Customer reports visible damage.'',
           customerEmail = ''customer@example.com'', customerPhone = None,
           assignedToId = None, createdById = ''u1'', createdAt = 8000, updatedAt = 8000,
           resolvedAt = None\<rparr>]\<rparr>)"
    using call db' i by (simp only:)
  have p2: "create_body0 ''severity'' = Some (JStr ''CRITICAL'')"
    and p3: "create_body0 ''status'' = Some (JStr ''CLOSED'')"
    by (simp_all add: create_body0_def)
  note p4 = fact [THEN conjunct2, THEN conjunct2]
  show ?thesis
    by (rule conjI [OF p1 conjI [OF p2 conjI [OF p3 p4]]])
qed


subsection \<open>Helper lemmas on the listing\<close>

lemma example_keys:
  "issue_key issue_a = (3000, ''a'')" "issue_key issue_b = (2000, ''b'')"
  "issue_key issue_c = (1000, ''c'')"
  by (simp_all add: issue_key_def issue_a_def issue_b_def issue_c_def)



lemma example_find_a: "find (\<lambda>i. issue_id i = ''a'') (ts_issues ts_db0) = Some issue_a"
  by (simp add: ts_db0_def issue_a_def issue_b_def issue_c_def)

lemma example_findMany_cursor:
  "findMany_issues ts_db0 (issue_where no_filters) (Some (Some (JStr ''a''))) 21 =
     Inr [issue_b, issue_c]"
  by (simp add: findMany_issues_def Let_def issue_where_def no_filters_def example_find_a)
     (simp add: ts_db0_def example_keys)


lemma example_list_cursor:
  "list_issues decode0 ts_db0 (no_filters\<lparr>f_cursor := Some cursor0\<rparr>) =
     Inr \<lparr>page_data = [issue_b, issue_c], page_cursor = Some cursor0, nextCursor = None,
          hasMore = False, page_limit = 20\<rparr>"
proof -
  have w: "issue_where (no_filters\<lparr>f_cursor := Some cursor0\<rparr>) = issue_where no_filters"
    by (simp add: issue_where_def no_filters_def fun_eq_iff)
  have c: "cursor0 \<noteq> []" by (simp add: cursor0_def)
  have lim: "f_limit (no_filters\<lparr>f_cursor := Some cursor0\<rparr>) = 20" by (simp add: no_filters_def)
  show ?thesis
    by (simp add: list_issues_def Let_def w c lim decode0_def decodedCursor_id_def
        example_findMany_cursor)
qed







subsection \<open>C7: the page size\<close>




subsection \<open>Helper lemmas on the cursor\<close>

lemma distinct_issue_keys:
  assumes "distinct (map issue_id xs)"
  shows "distinct (map issue_key xs)"
proof -
  from assms have d: "distinct xs" and inj: "inj_on issue_id (set xs)"
    by (simp_all add: distinct_map)
  have "inj_on issue_key (set xs)"
  proof (rule inj_onI)
    fix x y
    assume "x \<in> set xs" "y \<in> set xs" "issue_key x = issue_key y"
    then have "issue_id x = issue_id y" by (simp add: issue_key_def)
    with inj \<open>x \<in> set xs\<close> \<open>y \<in> set xs\<close> show "x = y" by (auto dest: inj_onD)
  qed
  with d show ?thesis by (simp add: distinct_map)
qed

lemma sorted_butlast_less:
  fixes f :: "'a \<Rightarrow> 'b::linorder"
  assumes "sorted (map f S)" "distinct (map f S)" "x \<in> set (butlast S)"
  shows "f x < f (last S)"
proof -
  from assms(3) have "S \<noteq> []" by auto
  then have S: "S = butlast S @ [last S]" by simp
  from assms(1) have "sorted (map f (butlast S @ [last S]))" using S by simp
  then have le: "f x \<le> f (last S)"
    using assms(3) by (simp add: sorted_append)
  from assms(2) have "distinct (map f (butlast S @ [last S]))" using S by simp
  then have "f (last S) \<notin> f ` set (butlast S)" by simp
  moreover from assms(3) have "f x \<in> f ` set (butlast S)" by (rule imageI)
  ultimately have "f x \<noteq> f (last S)" by metis
  with le show ?thesis by simp
qed

lemma mem_nonempty: "x \<in> set xs \<Longrightarrow> xs \<noteq> []"
  by auto

lemma drop1_rev: "drop 1 (rev S) = rev (butlast S)"
  by (cases S rule: rev_cases) simp_all

lemma after_cursor:
  assumes d: "distinct (map issue_id rows)"
    and x: "x \<in> set (drop 1 (filter (\<lambda>i. issue_key i \<le> k)
                (rev (sort_key issue_key (filter wh rows)))))"
  shows "issue_key x < k \<and> wh x \<and> x \<in> set rows"
proof -
  let ?B = "sort_key issue_key (filter wh rows)"
  let ?S = "filter (\<lambda>i. issue_key i \<le> k) ?B"
  have "filter (\<lambda>i. issue_key i \<le> k) (rev ?B) = rev ?S"
    by (simp add: rev_filter)
  with x have xb: "x \<in> set (butlast ?S)"
    by (simp only: drop1_rev set_rev)
  then have xS: "x \<in> set ?S" by (rule in_set_butlastD)
  have sorted: "sorted (map issue_key ?S)"
    by (rule sorted_filter) (rule sorted_sort_key)
  have "distinct (map issue_id ?S)"
    using d by (simp add: distinct_map inj_on_def)
  then have distinct: "distinct (map issue_key ?S)"
    by (rule distinct_issue_keys)
  from sorted_butlast_less [OF sorted distinct xb]
  have less: "issue_key x < issue_key (last ?S)" .
  from xS have "?S \<noteq> []" by (rule mem_nonempty)
  then have "last ?S \<in> set ?S" by (rule last_in_set)
  then have "issue_key (last ?S) \<le> k" by simp
  with less have "issue_key x < k" by simp
  moreover from xS have "wh x" "x \<in> set rows" by simp_all
  ultimately show ?thesis by simp
qed

lemma page_subset:
  assumes "list_issues decode db f = Inr page"
    and "f_cursor f = Some c" "c \<noteq> []" "decode c = Some (JObj members)"
    and "map_of members ''id'' = Some (JStr cid)"
    and "find (\<lambda>i. issue_id i = cid) (ts_issues db) = Some row"
  shows "set (page_data page) \<subseteq>
     set (drop 1 (filter (\<lambda>i. issue_key i \<le> issue_key row)
        (rev (sort_key issue_key (filter (issue_where f) (ts_issues db))))))"
proof -
  let ?after = "drop 1 (filter (\<lambda>i. issue_key i \<le> issue_key row)
        (rev (sort_key issue_key (filter (issue_where f) (ts_issues db)))))"
  let ?issues = "take (nat (f_limit f + 1)) ?after"
  from assms have "page_data page =
      (if f_limit f < int (length ?issues) then butlast ?issues else ?issues)"
    by (auto simp: list_issues_def decodedCursor_id_def findMany_issues_def Let_def
        split: sum.splits)
  moreover have "set (butlast ?issues) \<subseteq> set ?issues"
    by (auto dest: in_set_butlastD)
  moreover have "set ?issues \<subseteq> set ?after"
    by (rule set_take_subset)
  ultimately show ?thesis by auto
qed

lemma page_missing_row:
  assumes "list_issues decode db f = Inr page"
    and "f_cursor f = Some c" "c \<noteq> []" "decode c = Some (JObj members)"
    and "map_of members ''id'' = Some (JStr cid)"
    and "find (\<lambda>i. issue_id i = cid) (ts_issues db) = None"
  shows "page_data page = []"
  using assms
  by (auto simp: list_issues_def decodedCursor_id_def findMany_issues_def Let_def
      split: sum.splits)

lemma malformed_cursor:
  assumes "f_cursor f = Some c" "c \<noteq> []" "decode c = None"
  shows "list_issues decode db f = Inl (HttpError 400 ''Invalid cursor format'' [])"
  using assms by (simp add: list_issues_def ApiError_def)

lemma validate_cursor:
  "validateIssueFilters q = Inr f \<Longrightarrow> f_cursor f = q_cursor q \<and> q_cursor q \<noteq> Some []"
  by (auto simp: validateIssueFilters_def split: if_splits)

lemma validateIssueFilters_Inl:
  "validateIssueFilters q = Inl e \<Longrightarrow> e = validation_failed"
  by (auto simp: validateIssueFilters_def split: if_splits)

lemma malformed_cursor_route:
  assumes "authenticate verifyAccessToken (ts_users db) authHeader = Inr u"
    and "q_cursor q = Some c" "decode c = None"
  shows "\<exists>e. list_issues_route verifyAccessToken decode db authHeader q = Inl e \<and> statusCode e = 400"
proof (cases "validateIssueFilters q")
  case (Inl e)
  with assms(1) validateIssueFilters_Inl [OF Inl] show ?thesis
    by (simp add: list_issues_route_def validation_failed_def)
next
  case (Inr f)
  from validate_cursor [OF Inr] assms(2) have c: "f_cursor f = Some c" "c \<noteq> []" by auto
  have "list_issues decode db f = Inl (HttpError 400 ''Invalid cursor format'' [])"
    using c assms(3) by (rule malformed_cursor [of f c decode db])
  with assms(1) Inr show ?thesis
    by (simp add: list_issues_route_def)
qed


subsection \<open>C2: the cursor of the listing\<close>

lemma example_findMany_first:
  "findMany_issues ts_db0 (issue_where no_filters) None 2 = Inr [issue_a, issue_b]"
  by (simp add: findMany_issues_def Let_def issue_where_def no_filters_def ts_db0_def
      example_keys)

lemma example_list_first:
  "list_issues decode0 ts_db0 (no_filters\<lparr>f_limit := 1\<rparr>) =
     Inr \<lparr>page_data = [issue_a], page_cursor = None, nextCursor = Some (3000, ''a''),
          hasMore = True, page_limit = 1\<rparr>"
proof -
  have w: "issue_where (no_filters\<lparr>f_limit := 1\<rparr>) = issue_where no_filters"
    by (simp add: issue_where_def no_filters_def fun_eq_iff)
  have lim: "f_limit (no_filters\<lparr>f_limit := 1\<rparr>) = 1"
    and cur: "f_cursor (no_filters\<lparr>f_limit := 1\<rparr>) = None"
    by (simp_all add: no_filters_def)
  have n: "nat (1 + 1) = 2" by simp
  show ?thesis
    by (simp add: list_issues_def Let_def w lim cur n example_findMany_first)
       (simp add: issue_a_def)
qed

lemma findMany_subset:
  assumes "findMany_issues db wh cur n = Inr xs"
  shows "set xs \<subseteq> set (ts_issues db)"
proof
  fix x
  assume x: "x \<in> set xs"
  let ?ordered = "rev (sort_key issue_key (filter wh (ts_issues db)))"
  from assms x have "x \<in> set ?ordered"
    unfolding findMany_issues_def Let_def
    by (auto split: option.splits json.splits dest!: in_set_takeD in_set_dropD)
  then show "x \<in> set (ts_issues db)" by simp
qed

lemma next_cursor_last:
  assumes page: "list_issues decode db f = Inr page" and nxt: "nextCursor page = Some p"
  shows "hasMore page \<and> page_data page \<noteq> [] \<and> p = issue_key (last (page_data page)) \<and>
     last (page_data page) \<in> set (ts_issues db)"
proof -
  from page obtain cur issues
    where many: "findMany_issues db (issue_where f) cur (nat (f_limit f + 1)) = Inr issues"
      and data: "page_data page = (if f_limit f < int (length issues) then butlast issues else issues)"
      and more: "hasMore page = (f_limit f < int (length issues))"
      and next_def: "nextCursor page =
        (if f_limit f < int (length issues) \<and> page_data page \<noteq> []
         then Some (createdAt (last (page_data page)), issue_id (last (page_data page)))
         else None)"
    by (auto simp: list_issues_def Let_def split: sum.splits)
  from nxt next_def have m: "f_limit f < int (length issues)" and ne: "page_data page \<noteq> []"
    and p: "p = issue_key (last (page_data page))"
    by (auto simp: issue_key_def split: if_splits)
  from ne have "last (page_data page) \<in> set (page_data page)" by (rule last_in_set)
  with data m have "last (page_data page) \<in> set issues"
    by (auto dest: in_set_butlastD)
  with findMany_subset [OF many] have "last (page_data page) \<in> set (ts_issues db)"
    by blast
  with m ne p more show ?thesis by simp
qed

lemma after_issued_cursor:
  assumes d: "distinct (map issue_id (ts_issues db))"
    and page: "list_issues decode db f = Inr page"
    and c: "f_cursor f = Some c" "c \<noteq> []"
    and dec: "decode c = Some (cursorData toISOString p)"
    and seen: "\<forall>row \<in> set (ts_issues db). issue_id row = snd p \<longrightarrow> createdAt row = fst p"
    and i: "i \<in> set (page_data page)"
  shows "issue_key i < p \<and> issue_where f i \<and> i \<in> set (ts_issues db)"
proof -
  let ?members = "[(''createdAt'', JStr (toISOString (fst p))), (''id'', JStr (snd p))]"
  from dec have dec': "decode c = Some (JObj ?members)"
    by (simp only: cursorData_def)
  have idm: "map_of ?members ''id'' = Some (JStr (snd p))"
    by simp
  show ?thesis
  proof (cases "find (\<lambda>i. issue_id i = snd p) (ts_issues db)")
    case None
    have "page_data page = []"
      by (rule page_missing_row [of decode db f page c ?members "snd p",
            OF page c dec' idm None])
    with i show ?thesis by simp
  next
    case (Some row)
    from find_SomeD [OF Some] have row: "row \<in> set (ts_issues db)" "issue_id row = snd p"
      by simp_all
    with seen have "createdAt row = fst p" by blast
    with row(2) have key: "issue_key row = p" by (simp add: issue_key_def prod_eq_iff)
    have "set (page_data page) \<subseteq>
        set (drop 1 (filter (\<lambda>i. issue_key i \<le> issue_key row)
          (rev (sort_key issue_key (filter (issue_where f) (ts_issues db))))))"
      by (rule page_subset [of decode db f page c ?members "snd p" row,
            OF page c dec' idm Some])
    with i have "i \<in> set (drop 1 (filter (\<lambda>i. issue_key i \<le> issue_key row)
        (rev (sort_key issue_key (filter (issue_where f) (ts_issues db))))))"
      by blast
    from after_cursor [OF d this] key show ?thesis by simp
  qed
qed

text \<open>
  C2. The cursor that the handler issues, \<^verbatim>\<open>nextCursor\<close>, encodes the \<^verbatim>\<open>createdAt\<close> and the
  \<^verbatim>\<open>id\<close> of the last row of the page it comes with, a row of the table: it decodes to
  the last-seen pair. A listing with a cursor that decodes to the \<^verbatim>\<open>cursorData\<close> of such a
  pair (the issue with the id of the pair, if it is still stored, has the \<^verbatim>\<open>createdAt\<close> of
  the pair) returns, ids being unique, only rows of the table that match the filters
  and come strictly after the pair in the descending (createdAt, id) order. A cursor
  whose decoding is not valid JSON makes the handler fail with 400
  \<^verbatim>\<open>Invalid cursor format\<close>, and every listing of an authenticated caller with such a
  cursor is answered with 400.
\<close>

theorem list_cursor:
  "(list_issues decode db f = Inr page \<and> nextCursor page = Some p \<longrightarrow>
      hasMore page \<and> page_data page \<noteq> [] \<and> p = issue_key (last (page_data page)) \<and>
      last (page_data page) \<in> set (ts_issues db)) \<and>
   (distinct (map issue_id (ts_issues db)) \<and> list_issues decode db f = Inr page \<and>
    f_cursor f = Some c \<and> c \<noteq> [] \<and> decode c = Some (cursorData toISOString p) \<and>
    (\<forall>row \<in> set (ts_issues db). issue_id row = snd p \<longrightarrow> createdAt row = fst p) \<longrightarrow>
      (\<forall>i \<in> set (page_data page).
         issue_key i < p \<and> issue_where f i \<and> i \<in> set (ts_issues db))) \<and>
   (f_cursor f = Some c \<and> c \<noteq> [] \<and> decode c = None \<longrightarrow>
      list_issues decode db f = Inl (HttpError 400 ''Invalid cursor format'' [])) \<and>
   (authenticate verifyAccessToken (ts_users db) authHeader = Inr u \<and> q_cursor q = Some c \<and>
    decode c = None \<longrightarrow>
      (\<exists>e. list_issues_route verifyAccessToken decode db authHeader q = Inl e \<and>
           statusCode e = 400))"
proof -
  have issued: "list_issues decode db f = Inr page \<and> nextCursor page = Some p \<longrightarrow>
      hasMore page \<and> page_data page \<noteq> [] \<and> p = issue_key (last (page_data page)) \<and>
      last (page_data page) \<in> set (ts_issues db)"
    using next_cursor_last [of decode db f page p] by blast
  have after: "distinct (map issue_id (ts_issues db)) \<and> list_issues decode db f = Inr page \<and>
    f_cursor f = Some c \<and> c \<noteq> [] \<and> decode c = Some (cursorData toISOString p) \<and>
    (\<forall>row \<in> set (ts_issues db). issue_id row = snd p \<longrightarrow> createdAt row = fst p) \<longrightarrow>
      (\<forall>i \<in> set (page_data page).
         issue_key i < p \<and> issue_where f i \<and> i \<in> set (ts_issues db))"
  proof (intro impI ballI, elim conjE)
    fix i
    assume "distinct (map issue_id (ts_issues db))" "list_issues decode db f = Inr page"
      "f_cursor f = Some c" "c \<noteq> []" "decode c = Some (cursorData toISOString p)"
      "\<forall>row \<in> set (ts_issues db). issue_id row = snd p \<longrightarrow> createdAt row = fst p"
      "i \<in> set (page_data page)"
    then show "issue_key i < p \<and> issue_where f i \<and> i \<in> set (ts_issues db)"
      by (rule after_issued_cursor)
  qed
  have malformed: "f_cursor f = Some c \<and> c \<noteq> [] \<and> decode c = None \<longrightarrow>
      list_issues decode db f = Inl (HttpError 400 ''Invalid cursor format'' [])"
    using malformed_cursor [of f c decode db] by blast
  have route: "authenticate verifyAccessToken (ts_users db) authHeader = Inr u \<and>
    q_cursor q = Some c \<and> decode c = None \<longrightarrow>
      (\<exists>e. list_issues_route verifyAccessToken decode db authHeader q = Inl e \<and>
           statusCode e = 400)"
    using malformed_cursor_route [of verifyAccessToken db authHeader u q c decode] by blast
  show ?thesis
    by (rule conjI [OF issued conjI [OF after conjI [OF malformed route]]])
qed

theorem list_cursor_witness:
  "list_issues decode0 ts_db0 (no_filters\<lparr>f_limit := 1\<rparr>) =
     Inr \<lparr>page_data = [issue_a], page_cursor = None, nextCursor = Some (3000, ''a''),
          hasMore = True, page_limit = 1\<rparr> \<and>
   (3000, ''a'') = issue_key issue_a \<and> issue_a \<in> set (ts_issues ts_db0) \<and>
   decode0 cursor0 = Some (cursorData toISOString0 (3000, ''a'')) \<and>
   list_issues decode0 ts_db0 (no_filters\<lparr>f_cursor := Some cursor0\<rparr>) =
     Inr \<lparr>page_data = [issue_b, issue_c], page_cursor = Some cursor0, nextCursor = None,
          hasMore = False, page_limit = 20\<rparr> \<and>
   issue_key issue_b < (3000, ''a'') \<and> issue_key issue_c < (3000, ''a'') \<and>
   list_issues decode0 ts_db0 (no_filters\<lparr>f_cursor := Some ''not-a-cursor''\<rparr>) =
     Inl (HttpError 400 ''Invalid cursor format'' [])"
proof -
  let ?first = "\<lparr>page_data = [issue_a], page_cursor = None, nextCursor = Some (3000, ''a''),
          hasMore = True, page_limit = 1\<rparr>"
  let ?f = "no_filters\<lparr>f_cursor := Some cursor0\<rparr>"
  let ?page = "\<lparr>page_data = [issue_b, issue_c], page_cursor = Some cursor0, nextCursor = None,
          hasMore = False, page_limit = 20\<rparr>"
  have nxt: "nextCursor ?first = Some (3000, ''a'')" by simp
  from mp [OF list_cursor [THEN conjunct1, of decode0 ts_db0 "no_filters\<lparr>f_limit := 1\<rparr>" ?first
        "(3000, ''a'')"] conjI [OF example_list_first nxt]]
  have last_seen: "(3000, ''a'') = issue_key issue_a" "issue_a \<in> set (ts_issues ts_db0)"
    by simp_all
  have ids: "distinct (map issue_id (ts_issues ts_db0))"
    by (simp add: ts_db0_def issue_a_def issue_b_def issue_c_def)
  have cur: "f_cursor ?f = Some cursor0" by simp
  have ne: "cursor0 \<noteq> []" by (simp add: cursor0_def)
  have dec: "decode0 cursor0 = Some (cursorData toISOString0 (3000, ''a''))"
    by (simp add: decode0_def cursorData_def toISOString0_def)
  have seen: "\<forall>row \<in> set (ts_issues ts_db0). issue_id row = snd (3000::int, ''a'') \<longrightarrow>
      createdAt row = fst (3000::int, ''a'')"
    by (simp add: ts_db0_def issue_a_def issue_b_def issue_c_def)
  note hyp = conjI [OF ids conjI [OF example_list_cursor conjI [OF cur conjI [OF ne
        conjI [OF dec seen]]]]]
  from mp [OF list_cursor [THEN conjunct2, THEN conjunct1, of ts_db0 decode0 ?f ?page cursor0
        toISOString0 "(3000, ''a'')"] hyp]
  have "\<forall>i \<in> set (page_data ?page). issue_key i < (3000, ''a'') \<and> issue_where ?f i \<and>
      i \<in> set (ts_issues ts_db0)" .
  then have after: "issue_key issue_b < (3000, ''a'')" "issue_key issue_c < (3000, ''a'')"
    by simp_all
  have bad: "f_cursor (no_filters\<lparr>f_cursor := Some ''not-a-cursor''\<rparr>) = Some ''not-a-cursor'' \<and>
      ''not-a-cursor'' \<noteq> [] \<and> decode0 ''not-a-cursor'' = None"
    by (simp add: decode0_def cursor0_def)
  have malformed: "list_issues decode0 ts_db0 (no_filters\<lparr>f_cursor := Some ''not-a-cursor''\<rparr>) =
     Inl (HttpError 400 ''Invalid cursor format'' [])"
    by (rule mp [OF list_cursor [THEN conjunct2, THEN conjunct2, THEN conjunct1,
            of _ "''not-a-cursor''" decode0] bad])
  show ?thesis
    by (rule conjI [OF example_list_first conjI [OF last_seen(1) conjI [OF last_seen(2)
          conjI [OF dec conjI [OF example_list_cursor conjI [OF after(1)
          conjI [OF after(2) malformed]]]]]]])
qed


end
